theory Spec2Isabelle
  imports Complex_Main
begin

section \<open>Data model of the 8-ball pool game\<close>

text \<open>
  The two source files, \<^verbatim>\<open>updated.c\<close> and \<^verbatim>\<open>previous.c\<close>, are two versions of one
  program with the same data layout. The records below use the field and function names of
  \<^verbatim>\<open>updated.c\<close>; \<^verbatim>\<open>previous.c\<close> abbreviates them (\<^verbatim>\<open>tblBalls\<close> for \<^verbatim>\<open>balls\<close>,
  \<^verbatim>\<open>pos\<close>/\<^verbatim>\<open>vel\<close> for \<^verbatim>\<open>position\<close>/\<^verbatim>\<open>velocity\<close>, \<^verbatim>\<open>remain\<close> for \<^verbatim>\<open>ballsRemaining\<close>,
  \<^verbatim>\<open>curPlayer\<close> for \<^verbatim>\<open>currentPlayer\<close>, \<^verbatim>\<open>cuePos\<close> for \<^verbatim>\<open>cueBallPos\<close>, \<^verbatim>\<open>assignedType\<close> for
  \<^verbatim>\<open>assignedTypes\<close>, \<^verbatim>\<open>status\<close> for \<^verbatim>\<open>statusMessage\<close>, \<^verbatim>\<open>pullDist\<close> for
  \<^verbatim>\<open>stickPullPixels\<close>, \<^verbatim>\<open>stickLen\<close> for \<^verbatim>\<open>stickLength\<close>, \<^verbatim>\<open>stickRecoiling\<close> for
  \<^verbatim>\<open>stickRecoil\<close>). The functions of \<^verbatim>\<open>previous.c\<close> keep their own names
  (\<open>chkPockets\<close>, \<open>applyScratch\<close>, \<open>playerIdxForType\<close>, \<open>handleInput\<close>).

  A C \<^verbatim>\<open>float\<close> is modelled by a \<^typ>\<open>real\<close>: comparisons are the exact ones and
  arithmetic is exact, so rounding, infinities and NaN are outside the model. The
  \<^verbatim>\<open>Color\<close> field of a ball is used by the drawing code only and is left out.
  A field called \<^verbatim>\<open>type\<close> occurs in both C structs; it is \<open>btype\<close> for a ball and
  \<open>ptype\<close> for a player. The field \<^verbatim>\<open>power\<close> is \<open>shotPower\<close>.
\<close>

record Vector2 =
  vec_x :: real
  vec_y :: real

datatype BallType = BALL_CUE | BALL_SOLID | BALL_STRIPE | BALL_EIGHT

datatype GameState = GAME_START | GAME_PLAYING | GAME_SCRATCH | GAME_WON | GAME_LOST

datatype PlayerType = PLAYER_NONE | PLAYER_SOLIDS | PLAYER_STRIPES

record Ball =
  position :: Vector2
  velocity :: Vector2
  btype :: BallType
  number :: int
  pocketed :: bool
  isStriped :: bool

record Player =
  ptype :: PlayerType
  ballsRemaining :: int
  name :: string

record Game =
  balls :: "Ball list"
  players :: "Player list"
  currentPlayer :: int
  state :: GameState
  cueBallPos :: Vector2
  shotPower :: real
  aiming :: bool
  ballsMoving :: bool
  firstShot :: bool
  assignedTypes :: bool
  statusMessage :: string
  dragStart :: Vector2
  stickPullPixels :: real
  stickLength :: real
  stickRecoil :: bool
  recoilTimer :: real

text \<open>
  What the raylib input calls return in one frame: \<^verbatim>\<open>IsKeyPressed(KEY_R)\<close>,
  \<^verbatim>\<open>GetMousePosition()\<close> and the three queries of the left mouse button.
\<close>

record Input =
  keyR :: bool
  mousePos :: Vector2
  mousePressed :: bool
  mouseDown :: bool
  mouseReleased :: bool

subsection \<open>Constants\<close>

definition MAX_BALLS :: nat where "MAX_BALLS = 16"
definition TABLE_WIDTH :: real where "TABLE_WIDTH = 800"
definition TABLE_HEIGHT :: real where "TABLE_HEIGHT = 400"
definition BALL_RADIUS :: real where "BALL_RADIUS = 15"
definition POCKET_RADIUS :: real where "POCKET_RADIUS = 28"
definition RAIL_WIDTH :: real where "RAIL_WIDTH = 40"
definition FRICTION :: real where "FRICTION = 0.985"
definition MIN_VELOCITY :: real where "MIN_VELOCITY = 0.06"
definition MAX_POWER_PIXELS :: real where "MAX_POWER_PIXELS = 160"
definition MAX_SHOT_SPEED :: real where "MAX_SHOT_SPEED = 22"
definition MAX_BALL_SPEED :: real where "MAX_BALL_SPEED = 26"

definition vec :: "real \<Rightarrow> real \<Rightarrow> Vector2" where
  "vec a b = \<lparr>vec_x = a, vec_y = b\<rparr>"

section \<open>Geometry and speed clamp\<close>

definition Distance :: "Vector2 \<Rightarrow> Vector2 \<Rightarrow> real" where
  "Distance a b =
     (let dx = vec_x a - vec_x b; dy = vec_y a - vec_y b
      in sqrt (dx * dx + dy * dy))"

text \<open>The magnitude that \<^verbatim>\<open>ClampBallSpeed\<close> computes in its local \<^verbatim>\<open>mag\<close>.\<close>

definition speed :: "Vector2 \<Rightarrow> real" where
  "speed v = sqrt (vec_x v * vec_x v + vec_y v * vec_y v)"

definition ClampBallSpeed :: "Ball \<Rightarrow> real \<Rightarrow> Ball" where
  "ClampBallSpeed b maxSpeed =
     (let sx = vec_x (velocity b); sy = vec_y (velocity b);
          mag = sqrt (sx * sx + sy * sy)
      in if mag > maxSpeed
         then b\<lparr>velocity := vec ((vec_x (velocity b) / mag) * maxSpeed)
                                  ((vec_y (velocity b) / mag) * maxSpeed)\<rparr>
         else b)"

section \<open>Collision resolver\<close>

text \<open>
  \<^verbatim>\<open>ResolveElasticCollision(Ball *a, Ball *b)\<close> writes both balls; the model returns the
  pair. The callers pass two different array elements, so the pointers never alias.
\<close>

definition ResolveElasticCollision :: "Ball \<Rightarrow> Ball \<Rightarrow> Ball \<times> Ball" where
  "ResolveElasticCollision a b =
     (let dx = vec_x (position b) - vec_x (position a);
          dy = vec_y (position b) - vec_y (position a);
          dist = sqrt (dx * dx + dy * dy)
      in if dist \<le> 0.0001 then (a, b)
         else
           let nx = dx / dist; ny = dy / dist;
               tx = - ny; ty = nx;
               va_n = vec_x (velocity a) * nx + vec_y (velocity a) * ny;
               va_t = vec_x (velocity a) * tx + vec_y (velocity a) * ty;
               vb_n = vec_x (velocity b) * nx + vec_y (velocity b) * ny;
               vb_t = vec_x (velocity b) * tx + vec_y (velocity b) * ty;
               va_n_after = vb_n;
               vb_n_after = va_n
           in (a\<lparr>velocity := vec (va_n_after * nx + va_t * tx) (va_n_after * ny + va_t * ty)\<rparr>,
               b\<lparr>velocity := vec (vb_n_after * nx + vb_t * tx) (vb_n_after * ny + vb_t * ty)\<rparr>))"

section \<open>Motion integrator\<close>

text \<open>
  The body of the first loop of \<^verbatim>\<open>UpdatePhysics\<close> for one ball that is not pocketed:
  move, apply friction, stop tiny velocity components, bounce off the four rails, clamp
  the speed. The four rail tests run in sequence, each on the result of the one before.
\<close>

definition UpdatePhysics_ball :: "Ball \<Rightarrow> Ball" where
  "UpdatePhysics_ball b0 =
     (let b1 = b0\<lparr>position := vec (vec_x (position b0) + vec_x (velocity b0))
                                  (vec_y (position b0) + vec_y (velocity b0))\<rparr>;
          b2 = b1\<lparr>velocity := vec (vec_x (velocity b1) * FRICTION)
                                  (vec_y (velocity b1) * FRICTION)\<rparr>;
          b3 = (if \<bar>vec_x (velocity b2)\<bar> < MIN_VELOCITY
                then b2\<lparr>velocity := (velocity b2)\<lparr>vec_x := 0\<rparr>\<rparr> else b2);
          b4 = (if \<bar>vec_y (velocity b3)\<bar> < MIN_VELOCITY
                then b3\<lparr>velocity := (velocity b3)\<lparr>vec_y := 0\<rparr>\<rparr> else b3);
          b5 = (if vec_x (position b4) - BALL_RADIUS < RAIL_WIDTH
                then b4\<lparr>position := (position b4)\<lparr>vec_x := RAIL_WIDTH + BALL_RADIUS\<rparr>,
                        velocity := (velocity b4)\<lparr>vec_x := vec_x (velocity b4) * (- 0.86)\<rparr>\<rparr>
                else b4);
          b6 = (if vec_x (position b5) + BALL_RADIUS > TABLE_WIDTH - RAIL_WIDTH
                then b5\<lparr>position := (position b5)\<lparr>vec_x := TABLE_WIDTH - RAIL_WIDTH - BALL_RADIUS\<rparr>,
                        velocity := (velocity b5)\<lparr>vec_x := vec_x (velocity b5) * (- 0.86)\<rparr>\<rparr>
                else b5);
          b7 = (if vec_y (position b6) - BALL_RADIUS < RAIL_WIDTH
                then b6\<lparr>position := (position b6)\<lparr>vec_y := RAIL_WIDTH + BALL_RADIUS\<rparr>,
                        velocity := (velocity b6)\<lparr>vec_y := vec_y (velocity b6) * (- 0.86)\<rparr>\<rparr>
                else b6);
          b8 = (if vec_y (position b7) + BALL_RADIUS > TABLE_HEIGHT - RAIL_WIDTH
                then b7\<lparr>position := (position b7)\<lparr>vec_y := TABLE_HEIGHT - RAIL_WIDTH - BALL_RADIUS\<rparr>,
                        velocity := (velocity b7)\<lparr>vec_y := vec_y (velocity b7) * (- 0.86)\<rparr>\<rparr>
                else b7)
      in ClampBallSpeed b8 MAX_BALL_SPEED)"

text \<open>The first loop of \<^verbatim>\<open>UpdatePhysics\<close>: every index in turn, pocketed balls skipped.\<close>

definition UpdatePhysics_motion :: "Game \<Rightarrow> Game" where
  "UpdatePhysics_motion game =
     fold (\<lambda>i g. if pocketed (balls g ! i) then g
                  else g\<lparr>balls := (balls g)[i := UpdatePhysics_ball (balls g ! i)]\<rparr>)
          [0..<MAX_BALLS] game"

section \<open>Ball-to-ball collisions\<close>

text \<open>The body of the inner loop of \<^verbatim>\<open>CheckCollisions\<close> for the pair \<open>(i, j)\<close>.\<close>

definition CheckCollisions_pair :: "nat \<Rightarrow> nat \<Rightarrow> Game \<Rightarrow> Game" where
  "CheckCollisions_pair i j g =
     (if pocketed (balls g ! j) then g
      else
        let bi = balls g ! i; bj = balls g ! j;
            dist = Distance (position bi) (position bj);
            minDist = BALL_RADIUS * 2.0
        in if dist < minDist \<and> dist > 0.0001 then
             let overlap = 0.5 * (minDist - dist + 0.001);
                 normal = vec ((vec_x (position bj) - vec_x (position bi)) / dist)
                              ((vec_y (position bj) - vec_y (position bi)) / dist);
                 bi1 = bi\<lparr>position := vec (vec_x (position bi) - vec_x normal * overlap)
                                          (vec_y (position bi) - vec_y normal * overlap)\<rparr>;
                 bj1 = bj\<lparr>position := vec (vec_x (position bj) + vec_x normal * overlap)
                                          (vec_y (position bj) + vec_y normal * overlap)\<rparr>;
                 r = ResolveElasticCollision bi1 bj1;
                 bi3 = ClampBallSpeed (fst r) MAX_BALL_SPEED;
                 bj3 = ClampBallSpeed (snd r) MAX_BALL_SPEED
             in g\<lparr>balls := (balls g)[i := bi3, j := bj3]\<rparr>
           else g)"

definition CheckCollisions :: "Game \<Rightarrow> Game" where
  "CheckCollisions game =
     fold (\<lambda>i g. if pocketed (balls g ! i) then g
                  else fold (CheckCollisions_pair i) [i + 1..<MAX_BALLS] g)
          [0..<MAX_BALLS] game"

section \<open>Pocket detector of \<^verbatim>\<open>updated.c\<close>\<close>

definition pockets :: "Vector2 list" where
  "pockets =
     [vec RAIL_WIDTH RAIL_WIDTH,
      vec (TABLE_WIDTH * 0.5) RAIL_WIDTH,
      vec (TABLE_WIDTH - RAIL_WIDTH) RAIL_WIDTH,
      vec RAIL_WIDTH (TABLE_HEIGHT - RAIL_WIDTH),
      vec (TABLE_WIDTH * 0.5) (TABLE_HEIGHT - RAIL_WIDTH),
      vec (TABLE_WIDTH - RAIL_WIDTH) (TABLE_HEIGHT - RAIL_WIDTH)]"

text \<open>
  The inner loop over the six pockets runs its body at the first pocket whose centre is
  nearer than \<open>POCKET_RADIUS\<close> and then breaks; the body does not use the pocket's index.
  \<open>pocket_hit\<close> is that first pocket, if there is one.
\<close>

definition pocket_hit :: "Vector2 \<Rightarrow> Vector2 option" where
  "pocket_hit pos = find (\<lambda>p. Distance pos p < POCKET_RADIUS) pockets"

definition ApplyScratch :: "Game \<Rightarrow> Game" where
  "ApplyScratch game =
     game\<lparr>state := GAME_SCRATCH,
          statusMessage := ''Scratch! Place cue ball'',
          currentPlayer := 1 - currentPlayer game\<rparr>"

text \<open>
  The state of the scan loop: the game and the two local flags \<^verbatim>\<open>cueBallPocketed\<close> and
  \<^verbatim>\<open>anyPocketed\<close> while the loop runs, or the game with which the function has returned
  from inside the loop.
\<close>

datatype scan = Returned Game | Scanning Game bool bool

text \<open>One iteration of the outer loop of \<^verbatim>\<open>CheckPockets\<close>, at index \<open>i\<close>.\<close>

definition CheckPockets_ball :: "nat \<Rightarrow> Game \<Rightarrow> bool \<Rightarrow> bool \<Rightarrow> scan" where
  "CheckPockets_ball i game cueBallPocketed anyPocketed =
     (if pocketed (balls game ! i) then Scanning game cueBallPocketed anyPocketed
      else case pocket_hit (position (balls game ! i)) of
        None \<Rightarrow> Scanning game cueBallPocketed anyPocketed
      | Some p \<Rightarrow>
          let g1 = game\<lparr>balls := (balls game)
                     [i := (balls game ! i)\<lparr>pocketed := True, velocity := vec 0 0\<rparr>]\<rparr>
          in if i = 0
             then Scanning (g1\<lparr>cueBallPos := vec (TABLE_WIDTH * 0.25) (TABLE_HEIGHT * 0.5)\<rparr>)
                    True True
             else if btype (balls g1 ! i) = BALL_EIGHT then
               let myIdx = nat (currentPlayer g1)
               in if (ptype (players g1 ! myIdx) = PLAYER_SOLIDS \<and>
                      ballsRemaining (players g1 ! myIdx) = 0) \<or>
                     (ptype (players g1 ! myIdx) = PLAYER_STRIPES \<and>
                      ballsRemaining (players g1 ! myIdx) = 0)
                  then Returned (g1\<lparr>state := GAME_WON\<rparr>)
                  else Returned (g1\<lparr>state := GAME_LOST\<rparr>)
             else Scanning g1 cueBallPocketed True)"

fun CheckPockets_loop :: "nat list \<Rightarrow> scan \<Rightarrow> scan" where
  "CheckPockets_loop [] s = s"
| "CheckPockets_loop (i # is) (Returned g) = Returned g"
| "CheckPockets_loop (i # is) (Scanning g c a) = CheckPockets_loop is (CheckPockets_ball i g c a)"

text \<open>
  \<^verbatim>\<open>sprintf(game->statusMessage, "%s pocketed a ball!", name)\<close>: a name has at most 19
  characters, so the text fits the buffer of 100.
\<close>

definition CheckPockets :: "Game \<Rightarrow> Game" where
  "CheckPockets game =
     (case CheckPockets_loop [0..<MAX_BALLS] (Scanning game False False) of
        Returned g \<Rightarrow> g
      | Scanning g cueBallPocketed anyPocketed \<Rightarrow>
          let g1 = (if cueBallPocketed then ApplyScratch g else g)
          in if anyPocketed
             then g1\<lparr>statusMessage :=
                       name (players g1 ! nat (currentPlayer g1)) @ '' pocketed a ball!''\<rparr>
             else g1)"

definition UpdatePhysics :: "Game \<Rightarrow> Game" where
  "UpdatePhysics game = CheckPockets (CheckCollisions (UpdatePhysics_motion game))"

section \<open>Pocket detector of \<^verbatim>\<open>previous.c\<close>\<close>

definition playerIdxForType :: "Game \<Rightarrow> BallType \<Rightarrow> int" where
  "playerIdxForType g t =
     (if t = BALL_SOLID then
        (if ptype (players g ! 0) = PLAYER_SOLIDS then 0
         else if ptype (players g ! 1) = PLAYER_SOLIDS then 1 else - 1)
      else if t = BALL_STRIPE then
        (if ptype (players g ! 0) = PLAYER_STRIPES then 0
         else if ptype (players g ! 1) = PLAYER_STRIPES then 1 else - 1)
      else - 1)"

definition applyScratch :: "Game \<Rightarrow> Game" where
  "applyScratch g =
     g\<lparr>state := GAME_SCRATCH,
       statusMessage := ''Scratch! Place cue ball'',
       currentPlayer := 1 - currentPlayer g\<rparr>"

text \<open>
  The type assignment of \<^verbatim>\<open>chkPockets\<close>: two array writes in sequence, the current
  player's entry first, then the entry at \<^verbatim>\<open>1 - curPlayer\<close>.
\<close>

definition assign_types :: "Game \<Rightarrow> PlayerType \<Rightarrow> PlayerType \<Rightarrow> Game" where
  "assign_types g mine other =
     (let ps1 = (players g)[nat (currentPlayer g) :=
                   (players g ! nat (currentPlayer g))\<lparr>ptype := mine\<rparr>];
          ps2 = ps1[nat (1 - currentPlayer g) := (ps1 ! nat (1 - currentPlayer g))\<lparr>ptype := other\<rparr>]
      in g\<lparr>players := ps2\<rparr>)"

definition chkPockets_ball :: "nat \<Rightarrow> Game \<Rightarrow> bool \<Rightarrow> bool \<Rightarrow> scan" where
  "chkPockets_ball i g cuePocketed anyPocket =
     (if pocketed (balls g ! i) then Scanning g cuePocketed anyPocket
      else case pocket_hit (position (balls g ! i)) of
        None \<Rightarrow> Scanning g cuePocketed anyPocket
      | Some p \<Rightarrow>
          let g1 = g\<lparr>balls := (balls g)
                     [i := (balls g ! i)\<lparr>pocketed := True, velocity := vec 0 0\<rparr>]\<rparr>
          in if i = 0
             then Scanning (g1\<lparr>cueBallPos := vec (TABLE_WIDTH * 0.25) (TABLE_HEIGHT * 0.5)\<rparr>)
                    True True
             else
               let g2 = (if \<not> assignedTypes g1 \<and> firstShot g1
                         then (if btype (balls g1 ! i) = BALL_SOLID
                               then assign_types g1 PLAYER_SOLIDS PLAYER_STRIPES
                               else assign_types g1 PLAYER_STRIPES PLAYER_SOLIDS)
                              \<lparr>assignedTypes := True\<rparr>
                         else g1)
               in if btype (balls g2 ! i) = BALL_EIGHT then
                    let idx = nat (currentPlayer g2)
                    in if (ptype (players g2 ! idx) = PLAYER_SOLIDS \<and>
                           ballsRemaining (players g2 ! idx) = 0) \<or>
                          (ptype (players g2 ! idx) = PLAYER_STRIPES \<and>
                           ballsRemaining (players g2 ! idx) = 0)
                       then Returned (g2\<lparr>state := GAME_WON\<rparr>)
                       else Returned (g2\<lparr>state := GAME_LOST\<rparr>)
                  else
                    let owner = playerIdxForType g2 (btype (balls g2 ! i))
                    in if owner \<ge> 0 \<and> ballsRemaining (players g2 ! nat owner) > 0
                       then Scanning
                              (g2\<lparr>players := (players g2)[nat owner :=
                                     (players g2 ! nat owner)
                                       \<lparr>ballsRemaining := ballsRemaining (players g2 ! nat owner) - 1\<rparr>]\<rparr>)
                              cuePocketed True
                       else Scanning g2 cuePocketed True)"

fun chkPockets_loop :: "nat list \<Rightarrow> scan \<Rightarrow> scan" where
  "chkPockets_loop [] s = s"
| "chkPockets_loop (i # is) (Returned g) = Returned g"
| "chkPockets_loop (i # is) (Scanning g c a) = chkPockets_loop is (chkPockets_ball i g c a)"

definition chkPockets :: "Game \<Rightarrow> Game" where
  "chkPockets game =
     (case chkPockets_loop [0..<MAX_BALLS] (Scanning game False False) of
        Returned g \<Rightarrow> g
      | Scanning g cuePocketed anyPocket \<Rightarrow>
          let g1 = (if cuePocketed then applyScratch g else g)
          in if anyPocket
             then g1\<lparr>statusMessage :=
                       name (players g1 ! nat (currentPlayer g1)) @ '' pocketed a ball!''\<rparr>
             else g1)"

section \<open>Rack set-up and game initialisation (\<^verbatim>\<open>updated.c\<close>)\<close>

text \<open>
  The rack ball that \<^verbatim>\<open>ResetBalls\<close> writes at index \<open>idx\<close> in row \<open>row\<close>, column
  \<open>col\<close> of the triangle.
\<close>

definition rack_ball :: "nat \<Rightarrow> nat \<Rightarrow> nat \<Rightarrow> Ball" where
  "rack_ball row col idx =
     (let triangleStart = vec (TABLE_WIDTH * 0.72) (TABLE_HEIGHT * 0.5);
          offsetX = real row * (BALL_RADIUS * 2 * 0.88);
          offsetY = (real col * (BALL_RADIUS * 2)) - (real row * BALL_RADIUS)
      in \<lparr>position = vec (vec_x triangleStart + offsetX) (vec_y triangleStart + offsetY),
          velocity = vec 0 0,
          btype = (if idx = 8 then BALL_EIGHT else if idx \<le> 7 then BALL_SOLID else BALL_STRIPE),
          number = int idx,
          pocketed = False,
          isStriped = (if idx = 8 then False else if idx \<le> 7 then False else True)\<rparr>)"

definition rack_slots :: "(nat \<times> nat) list" where
  "rack_slots = concat (map (\<lambda>row. map (\<lambda>col. (row, col)) [0..<row + 1]) [0..<5])"

text \<open>
  \<^verbatim>\<open>ResetBalls\<close> writes every field of the slots \<open>0, 1, 2, \<dots>\<close> of the array in this
  order, \<^verbatim>\<open>idx\<close> counting the slots written so far; the model builds the array by
  appending, so \<^verbatim>\<open>idx\<close> is the length of the list built so far.
\<close>

definition ResetBalls :: "Game \<Rightarrow> Game" where
  "ResetBalls game =
     (let cue = \<lparr>position = vec (TABLE_WIDTH * 0.25) (TABLE_HEIGHT * 0.5),
                 velocity = vec 0 0,
                 btype = BALL_CUE,
                 number = 0,
                 pocketed = False,
                 isStriped = False\<rparr>;
          bs = fold (\<lambda>(row, col) bs.
                       let idx = length bs
                       in if idx \<ge> MAX_BALLS then bs else bs @ [rack_ball row col idx])
                    rack_slots [cue]
      in game\<lparr>balls := bs, cueBallPos := position (bs ! 0)\<rparr>)"

definition InitGame :: "Game \<Rightarrow> Game" where
  "InitGame game =
     ResetBalls
       (game\<lparr>players := [\<lparr>ptype = PLAYER_NONE, ballsRemaining = 7, name = ''Player 1''\<rparr>,
                          \<lparr>ptype = PLAYER_NONE, ballsRemaining = 7, name = ''Player 2''\<rparr>],
             currentPlayer := 0,
             state := GAME_START,
             shotPower := 0,
             aiming := False,
             ballsMoving := False,
             firstShot := True,
             assignedTypes := False,
             statusMessage := ''Break shot: click on cue, drag back, release to shoot'',
             stickPullPixels := 0,
             stickLength := 120,
             stickRecoil := False,
             recoilTimer := 0\<rparr>)"

section \<open>Turn logic and input (\<^verbatim>\<open>updated.c\<close>)\<close>

definition CheckWinCondition :: "Game \<Rightarrow> Game" where
  "CheckWinCondition game =
     (let idx = nat (currentPlayer game)
      in if (ptype (players game ! idx) = PLAYER_SOLIDS \<and>
             ballsRemaining (players game ! idx) = 0) \<or>
            (ptype (players game ! idx) = PLAYER_STRIPES \<and>
             ballsRemaining (players game ! idx) = 0)
         then game\<lparr>statusMessage := ''Shoot the 8-ball!''\<rparr>
         else game)"

definition NextTurn :: "Game \<Rightarrow> Game" where
  "NextTurn game =
     (let g1 = game\<lparr>currentPlayer := 1 - currentPlayer game\<rparr>
      in g1\<lparr>statusMessage := name (players g1 ! nat (currentPlayer g1)) @ CHR 0x27 # ''s turn''\<rparr>)"

definition AreBallsMoving :: "Game \<Rightarrow> bool" where
  "AreBallsMoving game =
     list_ex (\<lambda>i. \<not> pocketed (balls game ! i) \<and>
                  (\<bar>vec_x (velocity (balls game ! i))\<bar> > MIN_VELOCITY \<or>
                   \<bar>vec_y (velocity (balls game ! i))\<bar> > MIN_VELOCITY))
             [0..<MAX_BALLS]"

text \<open>
  The release branch of \<^verbatim>\<open>HandleInput\<close>: the shot, or nothing on a null drag.
  \<open>mouse\<close> is the local \<^verbatim>\<open>mousePos\<close> and \<open>cuePos\<close> the local \<^verbatim>\<open>cueBallPos\<close>.
\<close>

definition HandleInput_shoot :: "Vector2 \<Rightarrow> Vector2 \<Rightarrow> Game \<Rightarrow> Game" where
  "HandleInput_shoot mouse cuePos game =
     (let g1 = game\<lparr>aiming := False\<rparr>;
          dir = vec (vec_x mouse - vec_x cuePos) (vec_y mouse - vec_y cuePos);
          len = sqrt (vec_x dir * vec_x dir + vec_y dir * vec_y dir)
      in if len < 0.001 then g1
         else
           let dir1 = vec (vec_x dir / len) (vec_y dir / len);
               shotSpeed0 = (stickPullPixels g1 / MAX_POWER_PIXELS) * MAX_SHOT_SPEED;
               shotSpeed = (if shotSpeed0 > MAX_SHOT_SPEED then MAX_SHOT_SPEED else shotSpeed0)
           in g1\<lparr>balls := (balls g1)[0 := (balls g1 ! 0)
                              \<lparr>velocity := vec (vec_x dir1 * shotSpeed) (vec_y dir1 * shotSpeed)\<rparr>],
                  state := GAME_PLAYING,
                  firstShot := False,
                  stickRecoil := True,
                  recoilTimer := 0.12,
                  shotPower := 0\<rparr>)"

definition HandleInput :: "Input \<Rightarrow> Game \<Rightarrow> Game" where
  "HandleInput inp game =
     (if keyR inp then InitGame game
      else if state game = GAME_SCRATCH then
        (if mousePressed inp then
           (if vec_x (mousePos inp) > RAIL_WIDTH + BALL_RADIUS \<and>
               vec_x (mousePos inp) < TABLE_WIDTH - RAIL_WIDTH - BALL_RADIUS \<and>
               vec_y (mousePos inp) > RAIL_WIDTH + BALL_RADIUS \<and>
               vec_y (mousePos inp) < TABLE_HEIGHT - RAIL_WIDTH - BALL_RADIUS
            then game\<lparr>cueBallPos := mousePos inp,
                       balls := (balls game)[0 := (balls game ! 0)
                                  \<lparr>position := mousePos inp, pocketed := False,
                                   velocity := vec 0 0\<rparr>],
                       state := GAME_PLAYING,
                       statusMessage := ''Cue placed. '' @
                         name (players game ! nat (currentPlayer game)) @ CHR 0x27 # ''s turn''\<rparr>
            else game\<lparr>statusMessage := ''Invalid position! Place inside rails''\<rparr>)
         else game)
      else if ballsMoving game then game
      else
        let cuePos = (if pocketed (balls game ! 0) then cueBallPos game
                      else position (balls game ! 0));
            g1 = (if mousePressed inp \<and>
                     Distance (mousePos inp) cuePos \<le> BALL_RADIUS * 1.6
                  then game\<lparr>aiming := True, dragStart := mousePos inp,
                             stickPullPixels := 0, shotPower := 0\<rparr>
                  else game);
            g2 = (if mouseDown inp \<and> aiming g1 then
                    let d0 = Distance (mousePos inp) cuePos;
                        d = (if d0 > MAX_POWER_PIXELS then MAX_POWER_PIXELS else d0)
                    in g1\<lparr>stickPullPixels := d, shotPower := d / MAX_POWER_PIXELS\<rparr>
                  else g1)
        in if aiming g2 \<and> mouseReleased inp
           then HandleInput_shoot (mousePos inp) cuePos g2
           else g2)"

section \<open>One frame (\<^verbatim>\<open>UpdateGame\<close> of \<^verbatim>\<open>updated.c\<close>)\<close>

text \<open>The cue stick recoil block of \<^verbatim>\<open>UpdateGame\<close>.\<close>

definition UpdateGame_recoil :: "Game \<Rightarrow> Game" where
  "UpdateGame_recoil game =
     (if stickRecoil game then
        let g1 = game\<lparr>recoilTimer := recoilTimer game - 1 / 60\<rparr>
        in if recoilTimer g1 \<le> 0
           then g1\<lparr>stickRecoil := False, stickPullPixels := 0\<rparr>
           else
             let g2 = g1\<lparr>stickPullPixels := stickPullPixels g1 * 0.92\<rparr>;
                 g3 = g2\<lparr>shotPower := stickPullPixels g2 / MAX_POWER_PIXELS\<rparr>
             in if shotPower g3 < 0 then g3\<lparr>shotPower := 0\<rparr> else g3
      else game)"

text \<open>The motion edge detection and turn switch that follow \<^verbatim>\<open>UpdatePhysics\<close>.\<close>

definition UpdateGame_settle :: "Game \<Rightarrow> Game" where
  "UpdateGame_settle game =
     (let g1 = (if \<not> ballsMoving game \<and> AreBallsMoving game
                then game\<lparr>ballsMoving := True\<rparr> else game)
      in if ballsMoving g1 \<and> \<not> AreBallsMoving g1 then
           let g2 = g1\<lparr>ballsMoving := False\<rparr>
           in if state g2 = GAME_PLAYING then
                let g3 = CheckWinCondition g2
                in if state g3 \<noteq> GAME_WON \<and> state g3 \<noteq> GAME_LOST then NextTurn g3 else g3
              else g2
         else g1)"

text \<open>
  The game as it stands when \<^verbatim>\<open>UpdateGame\<close> reaches its test of the state: after the
  input handling and the recoil block.
\<close>

definition UpdateGame_input :: "Input \<Rightarrow> Game \<Rightarrow> Game" where
  "UpdateGame_input inp game = UpdateGame_recoil (HandleInput inp game)"

definition UpdateGame :: "Input \<Rightarrow> Game \<Rightarrow> Game" where
  "UpdateGame inp game =
     (let g1 = UpdateGame_input inp game
      in if state g1 = GAME_PLAYING \<or> state g1 = GAME_SCRATCH
         then UpdateGame_settle (UpdatePhysics g1)
         else g1)"

text \<open>
  The states of \<^verbatim>\<open>main\<close>: \<^verbatim>\<open>InitGame\<close> on the uninitialised \<^verbatim>\<open>Game\<close> variable, then one
  \<^verbatim>\<open>UpdateGame\<close> per frame, with whatever input the frame brings.
\<close>

inductive reachable :: "Game \<Rightarrow> bool" where
  reachable_init: "reachable (InitGame g0)"
| reachable_frame: "reachable g \<Longrightarrow> reachable (UpdateGame inp g)"

section \<open>Initialisation and input of \<^verbatim>\<open>previous.c\<close>\<close>

text \<open>
  \<^verbatim>\<open>resetBalls\<close> of \<^verbatim>\<open>previous.c\<close> is \<^verbatim>\<open>ResetBalls\<close> statement by statement, so
  \<open>initGame\<close> calls \<open>ResetBalls\<close>. \<^verbatim>\<open>previous.c\<close> declares \<^verbatim>\<open>updGame\<close> and never
  defines it, so only its functions are modelled, not its frame.
\<close>

definition initGame :: "Game \<Rightarrow> Game" where
  "initGame g =
     ResetBalls
       (g\<lparr>players := [\<lparr>ptype = PLAYER_NONE, ballsRemaining = 7, name = ''Player1''\<rparr>,
                       \<lparr>ptype = PLAYER_NONE, ballsRemaining = 7, name = ''Player2''\<rparr>],
          currentPlayer := 0,
          state := GAME_START,
          shotPower := 0,
          aiming := False,
          ballsMoving := False,
          firstShot := True,
          assignedTypes := False,
          statusMessage := ''Break shot: click cue, drag back, release to shoot'',
          stickPullPixels := 0,
          stickLength := 120,
          stickRecoil := False,
          recoilTimer := 0\<rparr>)"

definition handleInput_shoot :: "Vector2 \<Rightarrow> Vector2 \<Rightarrow> Game \<Rightarrow> Game" where
  "handleInput_shoot mouse cuePos g =
     (let g1 = g\<lparr>aiming := False\<rparr>;
          dir = vec (vec_x mouse - vec_x cuePos) (vec_y mouse - vec_y cuePos);
          len = sqrt (vec_x dir * vec_x dir + vec_y dir * vec_y dir)
      in if len < 0.001 then g1\<lparr>stickPullPixels := 0, shotPower := 0\<rparr>
         else
           let dir1 = vec (vec_x dir / len) (vec_y dir / len);
               shotSpeed0 = (stickPullPixels g1 / MAX_POWER_PIXELS) * MAX_SHOT_SPEED;
               shotSpeed = (if shotSpeed0 > MAX_SHOT_SPEED then MAX_SHOT_SPEED else shotSpeed0)
           in g1\<lparr>balls := (balls g1)[0 := (balls g1 ! 0)
                              \<lparr>velocity := vec (vec_x dir1 * shotSpeed) (vec_y dir1 * shotSpeed)\<rparr>],
                  state := GAME_PLAYING,
                  firstShot := False,
                  stickRecoil := True,
                  recoilTimer := 0.12,
                  shotPower := 0\<rparr>)"

definition handleInput :: "Input \<Rightarrow> Game \<Rightarrow> Game" where
  "handleInput inp g =
     (if keyR inp then initGame g
      else if state g = GAME_SCRATCH then
        (if mousePressed inp then
           (if vec_x (mousePos inp) > RAIL_WIDTH + BALL_RADIUS \<and>
               vec_x (mousePos inp) < TABLE_WIDTH - RAIL_WIDTH - BALL_RADIUS \<and>
               vec_y (mousePos inp) > RAIL_WIDTH + BALL_RADIUS \<and>
               vec_y (mousePos inp) < TABLE_HEIGHT - RAIL_WIDTH - BALL_RADIUS
            then g\<lparr>cueBallPos := mousePos inp,
                    balls := (balls g)[0 := (balls g ! 0)
                               \<lparr>position := mousePos inp, pocketed := False,
                                velocity := vec 0 0\<rparr>],
                    state := GAME_PLAYING,
                    statusMessage := ''Cue placed. '' @
                      name (players g ! nat (currentPlayer g)) @ CHR 0x27 # ''s turn''\<rparr>
            else g\<lparr>statusMessage := ''Invalid position! Place inside rails''\<rparr>)
         else g)
      else if ballsMoving g then g
      else
        let cuePos = (if pocketed (balls g ! 0) then cueBallPos g else position (balls g ! 0));
            g1 = (if mousePressed inp \<and>
                     Distance (mousePos inp) cuePos \<le> BALL_RADIUS * 1.6
                  then g\<lparr>aiming := True, dragStart := mousePos inp,
                          stickPullPixels := 0, shotPower := 0\<rparr>
                  else g);
            g2 = (if mouseDown inp \<and> aiming g1 then
                    let d0 = Distance (mousePos inp) cuePos;
                        d = (if d0 > MAX_POWER_PIXELS then MAX_POWER_PIXELS else d0)
                    in g1\<lparr>stickPullPixels := d, shotPower := d / MAX_POWER_PIXELS\<rparr>
                  else g1)
        in if mouseReleased inp \<and> aiming g2
           then handleInput_shoot (mousePos inp) cuePos g2
           else g2)"

section \<open>Predicates on games\<close>

text \<open>
  The rack typing that \<^verbatim>\<open>ResetBalls\<close> sets up and nothing changes: ball 0 is the cue
  ball and ball 8 is the only 8-ball.
\<close>

definition rack_typed :: "Game \<Rightarrow> bool" where
  "rack_typed g \<longleftrightarrow>
     list_all (\<lambda>i. (btype (balls g ! i) = BALL_EIGHT) = (i = 8)) [0..<MAX_BALLS]"

text \<open>Ball \<open>i\<close> is on the table and within the capture radius of a pocket.\<close>

definition sinks :: "Game \<Rightarrow> nat \<Rightarrow> bool" where
  "sinks g i \<longleftrightarrow> \<not> pocketed (balls g ! i) \<and> pocket_hit (position (balls g ! i)) \<noteq> None"

text \<open>
  The test that \<^verbatim>\<open>CheckPockets\<close>, \<^verbatim>\<open>chkPockets\<close> and \<^verbatim>\<open>CheckWinCondition\<close> make of
  the current player: a group is assigned and none of its balls remains.
\<close>

definition group_cleared :: "Game \<Rightarrow> bool" where
  "group_cleared g \<longleftrightarrow>
     (ptype (players g ! nat (currentPlayer g)) = PLAYER_SOLIDS \<and>
      ballsRemaining (players g ! nat (currentPlayer g)) = 0) \<or>
     (ptype (players g ! nat (currentPlayer g)) = PLAYER_STRIPES \<and>
      ballsRemaining (players g ! nat (currentPlayer g)) = 0)"

text \<open>An 8-ball other than ball 0 sinks; some ball sinks.\<close>

definition eight_sinks :: "Game \<Rightarrow> bool" where
  "eight_sinks g \<longleftrightarrow>
     list_ex (\<lambda>i. i \<noteq> 0 \<and> sinks g i \<and> btype (balls g ! i) = BALL_EIGHT) [0..<MAX_BALLS]"

definition any_sinks :: "Game \<Rightarrow> bool" where
  "any_sinks g \<longleftrightarrow> list_ex (sinks g) [0..<MAX_BALLS]"

text \<open>
  The unit normal from the centre of \<open>a\<close> to the centre of \<open>b\<close> as
  \<^verbatim>\<open>ResolveElasticCollision\<close> computes it in \<^verbatim>\<open>nx\<close>, \<^verbatim>\<open>ny\<close>, and the projections of
  a velocity on the normal and on the tangent \<^verbatim>\<open>(-ny, nx)\<close>, as in \<^verbatim>\<open>va_n\<close>, \<^verbatim>\<open>va_t\<close>.
\<close>

definition unit_normal :: "Ball \<Rightarrow> Ball \<Rightarrow> Vector2" where
  "unit_normal a b =
     (let dx = vec_x (position b) - vec_x (position a);
          dy = vec_y (position b) - vec_y (position a);
          dist = sqrt (dx * dx + dy * dy)
      in vec (dx / dist) (dy / dist))"

definition normal_part :: "Vector2 \<Rightarrow> Vector2 \<Rightarrow> real" where
  "normal_part n v = vec_x v * vec_x n + vec_y v * vec_y n"

definition tangent_part :: "Vector2 \<Rightarrow> Vector2 \<Rightarrow> real" where
  "tangent_part n v = vec_x v * (- vec_y n) + vec_y v * vec_x n"

text \<open>The game a scan loop holds, whichever way the loop ends.\<close>

fun scan_game :: "scan \<Rightarrow> Game" where
  "scan_game (Returned g) = g"
| "scan_game (Scanning g c a) = g"

text \<open>
  The capture test of the six pockets with the constants worked out: the squared distance
  to a pocket centre is below \<open>28\<^sup>2 = 784\<close>.
\<close>

definition near_pocket :: "Vector2 \<Rightarrow> bool" where
  "near_pocket p \<longleftrightarrow>
     (vec_x p - 40) * (vec_x p - 40) + (vec_y p - 40) * (vec_y p - 40) < 784 \<or>
     (vec_x p - 400) * (vec_x p - 400) + (vec_y p - 40) * (vec_y p - 40) < 784 \<or>
     (vec_x p - 760) * (vec_x p - 760) + (vec_y p - 40) * (vec_y p - 40) < 784 \<or>
     (vec_x p - 40) * (vec_x p - 40) + (vec_y p - 360) * (vec_y p - 360) < 784 \<or>
     (vec_x p - 400) * (vec_x p - 400) + (vec_y p - 360) * (vec_y p - 360) < 784 \<or>
     (vec_x p - 760) * (vec_x p - 760) + (vec_y p - 360) * (vec_y p - 360) < 784"

text \<open>
  The players as \<^verbatim>\<open>InitGame\<close> leaves them, with \<open>currentPlayer\<close> a valid index and the
  state not Won.
\<close>

definition fresh_players :: "Game \<Rightarrow> bool" where
  "fresh_players g \<longleftrightarrow>
     players g = [\<lparr>ptype = PLAYER_NONE, ballsRemaining = 7, name = ''Player 1''\<rparr>,
                  \<lparr>ptype = PLAYER_NONE, ballsRemaining = 7, name = ''Player 2''\<rparr>] \<and>
     (currentPlayer g = 0 \<or> currentPlayer g = 1) \<and> state g \<noteq> GAME_WON"



text \<open>
  A ball that the motion pass leaves as it is: at rest and clear of the four rails, each
  rail test of \<^verbatim>\<open>UpdatePhysics\<close> being false.
\<close>

definition resting :: "Ball \<Rightarrow> bool" where
  "resting b \<longleftrightarrow>
     velocity b = vec 0 0 \<and>
     \<not> vec_x (position b) - BALL_RADIUS < RAIL_WIDTH \<and>
     \<not> vec_x (position b) + BALL_RADIUS > TABLE_WIDTH - RAIL_WIDTH \<and>
     \<not> vec_y (position b) - BALL_RADIUS < RAIL_WIDTH \<and>
     \<not> vec_y (position b) + BALL_RADIUS > TABLE_HEIGHT - RAIL_WIDTH"

definition all_resting :: "Game \<Rightarrow> bool" where
  "all_resting g \<longleftrightarrow>
     list_all (\<lambda>i. pocketed (balls g ! i) \<or> resting (balls g ! i)) [0..<MAX_BALLS]"

text \<open>
  A pair that \<^verbatim>\<open>CheckCollisions\<close> leaves as it is: a ball of it is pocketed, or its
  collision test is false. \<open>far_apart\<close> is the test with the constants worked out: the
  squared distance is at least \<open>30\<^sup>2 = 900\<close>.
\<close>

definition apart :: "Game \<Rightarrow> nat \<Rightarrow> nat \<Rightarrow> bool" where
  "apart g i j \<longleftrightarrow>
     pocketed (balls g ! i) \<or> pocketed (balls g ! j) \<or>
     \<not> (Distance (position (balls g ! i)) (position (balls g ! j)) < BALL_RADIUS * 2.0 \<and>
        Distance (position (balls g ! i)) (position (balls g ! j)) > 0.0001)"

definition all_apart :: "Game \<Rightarrow> bool" where
  "all_apart g \<longleftrightarrow>
     list_all (\<lambda>i. list_all (\<lambda>j. apart g i j) [i + 1..<MAX_BALLS]) [0..<MAX_BALLS]"

definition far_apart :: "Ball list \<Rightarrow> nat \<Rightarrow> nat \<Rightarrow> bool" where
  "far_apart bs i j \<longleftrightarrow>
     900 \<le> (vec_x (position (bs ! i)) - vec_x (position (bs ! j))) *
           (vec_x (position (bs ! i)) - vec_x (position (bs ! j))) +
           (vec_y (position (bs ! i)) - vec_y (position (bs ! j))) *
           (vec_y (position (bs ! i)) - vec_y (position (bs ! j)))"

section \<open>Example states\<close>

text \<open>A ball on the table at position \<open>p\<close> with velocity \<open>v\<close>.\<close>

definition table_ball :: "Vector2 \<Rightarrow> Vector2 \<Rightarrow> Ball" where
  "table_ball p v =
     \<lparr>position = p, velocity = v, btype = BALL_SOLID, number = 1,
      pocketed = False, isStriped = False\<rparr>"

text \<open>
  One content of the uninitialised variable \<^verbatim>\<open>Game game\<close> of \<^verbatim>\<open>main\<close>, the rack
  start that \<^verbatim>\<open>InitGame\<close> makes of it, and a game in play: the break shot has been
  taken and the balls rest on their rack positions.
\<close>

definition uninit_game :: Game where
  "uninit_game =
     \<lparr>balls = replicate 16 (table_ball (vec 0 0) (vec 0 0)),
      players = replicate 2 \<lparr>ptype = PLAYER_NONE, ballsRemaining = 0, name = []\<rparr>,
      currentPlayer = 0, state = GAME_START, cueBallPos = vec 0 0, shotPower = 0,
      aiming = False, ballsMoving = False, firstShot = False, assignedTypes = False,
      statusMessage = [], dragStart = vec 0 0, stickPullPixels = 0, stickLength = 0,
      stickRecoil = False, recoilTimer = 0\<rparr>"

definition rack_start :: Game where
  "rack_start = InitGame uninit_game"

definition in_play :: Game where
  "in_play = rack_start\<lparr>state := GAME_PLAYING, firstShot := False\<rparr>"

text \<open>The game \<open>g\<close> with ball \<open>i\<close> at position \<open>p\<close>.\<close>

definition move_ball_to :: "nat \<Rightarrow> Vector2 \<Rightarrow> Game \<Rightarrow> Game" where
  "move_ball_to i p g = g\<lparr>balls := (balls g)[i := (balls g ! i)\<lparr>position := p\<rparr>]\<rparr>"

text \<open>In play, with the cue ball on the top left pocket and the 8-ball on the top right one.\<close>

definition cue_and_eight :: Game where
  "cue_and_eight = move_ball_to 8 (vec 760 40) (move_ball_to 0 (vec 40 40) in_play)"

text \<open>In play, with one ball on the top left pocket: the cue ball, solid ball 1, the 8-ball.\<close>

definition cue_sunk :: Game where
  "cue_sunk = move_ball_to 0 (vec 40 40) in_play"

definition solid_sunk :: Game where
  "solid_sunk = move_ball_to 1 (vec 40 40) in_play"

text \<open>The 8-ball on the top left pocket and stripe ball 9 on the top right one.\<close>

definition eight_and_nine :: Game where
  "eight_and_nine = move_ball_to 9 (vec 760 40) (move_ball_to 8 (vec 40 40) in_play)"


text \<open>The rack start with the 8-ball on the top left pocket, the break shot not yet taken.\<close>

definition eight_on_break :: Game where
  "eight_on_break = move_ball_to 8 (vec 40 40) rack_start"

text \<open>
  The rack start while the player aims with the stick pulled 80 pixels, and the frame
  input in which the mouse button is released at \<open>p\<close>.
\<close>

definition aimed :: Game where
  "aimed = rack_start\<lparr>aiming := True, stickPullPixels := 80\<rparr>"

definition release_at :: "Vector2 \<Rightarrow> Input" where
  "release_at p =
     \<lparr>keyR = False, mousePos = p, mousePressed = False, mouseDown = False,
      mouseReleased = True\<rparr>"

text \<open>
  The frame input of a left click at \<open>p\<close>, and the game that waits for the cue ball to
  be placed after the scratch of \<open>cue_sunk\<close>.
\<close>

definition click_at :: "Vector2 \<Rightarrow> Input" where
  "click_at p =
     \<lparr>keyR = False, mousePos = p, mousePressed = True, mouseDown = True,
      mouseReleased = False\<rparr>"

definition scratch_pending :: Game where
  "scratch_pending = CheckPockets cue_sunk"

text \<open>The game after a click at \<open>(56, 56)\<close> has placed the cue ball of \<open>scratch_pending\<close>.\<close>

definition placed :: Game where
  "placed = HandleInput (click_at (vec 56 56)) scratch_pending"

section \<open>Geometry: clamp and elastic exchange\<close>


lemma sqrt_less_iff: "0 < r \<Longrightarrow> sqrt x < r \<longleftrightarrow> x < r * r"
  by (metis abs_of_pos real_sqrt_abs2 real_sqrt_less_iff)

lemma vec_simps [simp]: "vec_x (vec a b) = a" "vec_y (vec a b) = b"
  by (simp_all add: vec_def)

lemma Distance_sym: "Distance a b = Distance b a"
  by (simp add: Distance_def Let_def power2_commute algebra_simps)

lemma unit_normal_unit:
  assumes "Distance (position a) (position b) > 0.0001"
  shows "vec_x (unit_normal a b) * vec_x (unit_normal a b) + vec_y (unit_normal a b) * vec_y (unit_normal a b) = 1"
proof -
  define dx where "dx = vec_x (position b) - vec_x (position a)"
  define dy where "dy = vec_y (position b) - vec_y (position a)"
  define d where "d = sqrt (dx * dx + dy * dy)"
  have dd: "d = Distance (position a) (position b)"
    unfolding d_def dx_def dy_def Distance_def Let_def by (simp add: algebra_simps)
  have pos: "d > 0" using assms dd by simp
  have sq: "d * d = dx * dx + dy * dy"
    unfolding d_def by (simp add: real_sqrt_mult_self)
  have "(dx / d) * (dx / d) + (dy / d) * (dy / d) = (dx * dx + dy * dy) / (d * d)"
    by (simp add: add_divide_distrib)
  also have "\<dots> = 1" using pos by (simp add: sq[symmetric])
  finally show ?thesis
    unfolding unit_normal_def Let_def dx_def[symmetric] dy_def[symmetric] d_def[symmetric]
    by simp
qed



lemma swap_algebra:
  fixes nx ny N T :: real
  assumes "nx * nx + ny * ny = 1"
  shows "(N * nx + T * (- ny)) * nx + (N * ny + T * nx) * ny = N"
    and "(N * nx + T * (- ny)) * (- ny) + (N * ny + T * nx) * nx = T"
proof -
  have "(N * nx + T * (- ny)) * nx + (N * ny + T * nx) * ny = N * (nx * nx + ny * ny)"
    by (simp add: algebra_simps)
  then show "(N * nx + T * (- ny)) * nx + (N * ny + T * nx) * ny = N"
    using assms by simp
  have "(N * nx + T * (- ny)) * (- ny) + (N * ny + T * nx) * nx = T * (nx * nx + ny * ny)"
    by (simp add: algebra_simps)
  then show "(N * nx + T * (- ny)) * (- ny) + (N * ny + T * nx) * nx = T"
    using assms by simp
qed

lemma resolve_swap:
  assumes "Distance (position a) (position b) > 0.0001"
  shows "normal_part (unit_normal a b) (velocity (fst (ResolveElasticCollision a b))) =
           normal_part (unit_normal a b) (velocity b) \<and>
         normal_part (unit_normal a b) (velocity (snd (ResolveElasticCollision a b))) =
           normal_part (unit_normal a b) (velocity a) \<and>
         tangent_part (unit_normal a b) (velocity (fst (ResolveElasticCollision a b))) =
           tangent_part (unit_normal a b) (velocity a) \<and>
         tangent_part (unit_normal a b) (velocity (snd (ResolveElasticCollision a b))) =
           tangent_part (unit_normal a b) (velocity b)"
proof -
  define nx where "nx = vec_x (unit_normal a b)"
  define ny where "ny = vec_y (unit_normal a b)"
  have unit: "nx * nx + ny * ny = 1"
    unfolding nx_def ny_def using unit_normal_unit[OF assms] .
  have far: "\<not> sqrt ((vec_x (position b) - vec_x (position a)) * (vec_x (position b) - vec_x (position a)) +
               (vec_y (position b) - vec_y (position a)) * (vec_y (position b) - vec_y (position a))) \<le> 0.0001"
    using assms unfolding Distance_sym[of "position a" "position b"] unfolding Distance_def Let_def by simp
  have va: "velocity (fst (ResolveElasticCollision a b)) =
      vec ((vec_x (velocity b) * nx + vec_y (velocity b) * ny) * nx + (vec_x (velocity a) * (- ny) + vec_y (velocity a) * nx) * (- ny))
          ((vec_x (velocity b) * nx + vec_y (velocity b) * ny) * ny + (vec_x (velocity a) * (- ny) + vec_y (velocity a) * nx) * nx)"
    unfolding ResolveElasticCollision_def Let_def nx_def ny_def unit_normal_def using far by simp
  have vb: "velocity (snd (ResolveElasticCollision a b)) =
      vec ((vec_x (velocity a) * nx + vec_y (velocity a) * ny) * nx + (vec_x (velocity b) * (- ny) + vec_y (velocity b) * nx) * (- ny))
          ((vec_x (velocity a) * nx + vec_y (velocity a) * ny) * ny + (vec_x (velocity b) * (- ny) + vec_y (velocity b) * nx) * nx)"
    unfolding ResolveElasticCollision_def Let_def nx_def ny_def unit_normal_def using far by simp
  show ?thesis
    unfolding normal_part_def tangent_part_def va vb nx_def[symmetric] ny_def[symmetric] vec_simps
    using swap_algebra[OF unit] by blast
qed


text \<open>
  Claim C8. For two balls whose centres are more than 0.0001 apart,
  \<^verbatim>\<open>ResolveElasticCollision\<close> exchanges the components of the two velocities along the
  unit normal from \<open>a\<close> to \<open>b\<close> and keeps each ball's tangential component; so the sum
  of the two normal components is the same before and after. The positions are not
  written. Arithmetic is exact (\<^typ>\<open>real\<close>), as everywhere in this model.
\<close>

theorem ResolveElasticCollision_swaps_normal:
  assumes "Distance (position a) (position b) > 0.0001"
  shows "(let n = unit_normal a b;
              a' = fst (ResolveElasticCollision a b);
              b' = snd (ResolveElasticCollision a b)
          in normal_part n (velocity a') = normal_part n (velocity b) \<and>
             normal_part n (velocity b') = normal_part n (velocity a) \<and>
             tangent_part n (velocity a') = tangent_part n (velocity a) \<and>
             tangent_part n (velocity b') = tangent_part n (velocity b) \<and>
             normal_part n (velocity a') + normal_part n (velocity b') =
               normal_part n (velocity a) + normal_part n (velocity b) \<and>
             position a' = position a \<and> position b' = position b)"
proof -
  have pos: "position (fst (ResolveElasticCollision a b)) = position a"
    "position (snd (ResolveElasticCollision a b)) = position b"
    by (simp_all add: ResolveElasticCollision_def Let_def)
  from resolve_swap[OF assms] pos show ?thesis
    by (simp add: Let_def)
qed

theorem ResolveElasticCollision_swaps_normal_witness:
  "Distance (position (table_ball (vec 0 0) (vec 3 1)))
            (position (table_ball (vec 3 4) (vec (- 2) 0.5))) > 0.0001 \<and>
   (let a = table_ball (vec 0 0) (vec 3 1); b = table_ball (vec 3 4) (vec (- 2) 0.5);
        n = unit_normal a b;
        a' = fst (ResolveElasticCollision a b);
        b' = snd (ResolveElasticCollision a b)
    in normal_part n (velocity a') = normal_part n (velocity b) \<and>
       normal_part n (velocity b') = normal_part n (velocity a) \<and>
       tangent_part n (velocity a') = tangent_part n (velocity a) \<and>
       tangent_part n (velocity b') = tangent_part n (velocity b) \<and>
       normal_part n (velocity a') + normal_part n (velocity b') =
         normal_part n (velocity a) + normal_part n (velocity b) \<and>
       position a' = position a \<and> position b' = position b)"
proof -
  have far: "Distance (position (table_ball (vec 0 0) (vec 3 1)))
                      (position (table_ball (vec 3 4) (vec (- 2) 0.5))) > 0.0001"
    by (simp add: Distance_def table_ball_def Let_def real_less_rsqrt power2_eq_square)
  from ResolveElasticCollision_swaps_normal[OF far] far show ?thesis
    by (simp add: Let_def)
qed

section \<open>The pocket scan of \<^verbatim>\<open>updated.c\<close>\<close>

lemma list_all_update:
  "list_all P xs \<Longrightarrow> P x \<Longrightarrow> list_all P (xs[i := x])"
  using set_update_subset_insert[of xs i x] by (auto simp: list_all_iff)




lemma sunk_btype:
  "btype (bs[i := (bs ! i)\<lparr>pocketed := True, velocity := v\<rparr>] ! j) = btype (bs ! j)"
  by (cases "i < length bs"; cases "j = i") (simp_all add: list_update_beyond)

lemma CheckPockets_ball_Scanning:
  assumes "CheckPockets_ball i g c a = Scanning g' c' a'"
  shows "players g' = players g" "currentPlayer g' = currentPlayer g" "state g' = state g"
    "statusMessage g' = statusMessage g" "length (balls g') = length (balls g)"
    "\<And>j. j \<noteq> i \<Longrightarrow> balls g' ! j = balls g ! j"
    "\<And>j. btype (balls g' ! j) = btype (balls g ! j)"
    "c' = (c \<or> (i = 0 \<and> sinks g 0))" "a' = (a \<or> sinks g i)"
    "i \<noteq> 0 \<Longrightarrow> \<not> (sinks g i \<and> btype (balls g ! i) = BALL_EIGHT)"
  using assms
  by (auto simp: CheckPockets_ball_def sinks_def Let_def sunk_btype
      split: if_splits option.splits)

lemma CheckPockets_ball_Returned:
  assumes "CheckPockets_ball i g c a = Returned g'"
  shows "i \<noteq> 0" "sinks g i" "btype (balls g ! i) = BALL_EIGHT"
    "state g' = (if group_cleared g then GAME_WON else GAME_LOST)"
    "players g' = players g" "currentPlayer g' = currentPlayer g"
    "statusMessage g' = statusMessage g"
    "balls g' = (balls g)[i := (balls g ! i)\<lparr>pocketed := True, velocity := vec 0 0\<rparr>]"
  using assms
  by (auto simp: CheckPockets_ball_def sinks_def Let_def sunk_btype group_cleared_def
      split: if_splits option.splits)

lemma CheckPockets_ball_eight:
  assumes "i \<noteq> 0" "sinks g i" "btype (balls g ! i) = BALL_EIGHT"
  shows "\<exists>g'. CheckPockets_ball i g c a = Returned g'"
  using assms
  by (auto simp: CheckPockets_ball_def sinks_def Let_def sunk_btype
      split: if_splits option.splits)

lemma CheckPockets_loop_Returned [simp]: "CheckPockets_loop is (Returned g) = Returned g"
  by (cases "is") simp_all

lemma CheckPockets_loop_append:
  "CheckPockets_loop (xs @ ys) s = CheckPockets_loop ys (CheckPockets_loop xs s)"
proof (induction xs arbitrary: s)
  case Nil
  then show ?case by simp
next
  case (Cons i xs)
  then show ?case by (cases s) simp_all
qed


lemma sinks_cong:
  "balls g' ! j = balls g ! j \<Longrightarrow> sinks g' j = sinks g j"
  by (simp add: sinks_def)

lemma CheckPockets_loop_Scanning:
  assumes "CheckPockets_loop is (Scanning g c a) = Scanning g' c' a'"
  shows "players g' = players g \<and> currentPlayer g' = currentPlayer g \<and> state g' = state g \<and>
    statusMessage g' = statusMessage g \<and> length (balls g') = length (balls g) \<and>
    (\<forall>j. j \<notin> set is \<longrightarrow> balls g' ! j = balls g ! j) \<and>
    (\<forall>j. btype (balls g' ! j) = btype (balls g ! j)) \<and>
    (0 \<notin> set is \<longrightarrow> c' = c)"
  using assms
proof (induction "is" arbitrary: g c a)
  case Nil
  then show ?case by simp
next
  case (Cons i "is")
  show ?case
  proof (cases "CheckPockets_ball i g c a")
    case (Returned g1)
    with Cons.prems show ?thesis by simp
  next
    case (Scanning g1 c1 a1)
    with Cons.prems have "CheckPockets_loop is (Scanning g1 c1 a1) = Scanning g' c' a'"
      by simp
    from Cons.IH[OF this] CheckPockets_ball_Scanning[OF Scanning]
    show ?thesis by auto
  qed
qed

lemma CheckPockets_loop_Returned_frame:
  assumes "CheckPockets_loop is (Scanning g c a) = Returned g'"
  shows "players g' = players g \<and> currentPlayer g' = currentPlayer g \<and>
    statusMessage g' = statusMessage g \<and>
    state g' = (if group_cleared g then GAME_WON else GAME_LOST)"
  using assms
proof (induction "is" arbitrary: g c a)
  case Nil
  then show ?case by simp
next
  case (Cons i "is")
  show ?case
  proof (cases "CheckPockets_ball i g c a")
    case (Returned g1)
    with Cons.prems have "g' = g1" by simp
    with CheckPockets_ball_Returned[OF Returned] show ?thesis by simp
  next
    case (Scanning g1 c1 a1)
    with Cons.prems have "CheckPockets_loop is (Scanning g1 c1 a1) = Returned g'"
      by simp
    from Cons.IH[OF this] CheckPockets_ball_Scanning[OF Scanning]
    show ?thesis by (simp add: group_cleared_def)
  qed
qed

lemma CheckPockets_loop_returns_iff:
  assumes "distinct is"
  shows "(\<exists>g'. CheckPockets_loop is (Scanning g c a) = Returned g') \<longleftrightarrow>
         (\<exists>i\<in>set is. i \<noteq> 0 \<and> sinks g i \<and> btype (balls g ! i) = BALL_EIGHT)"
  using assms
proof (induction "is" arbitrary: g c a)
  case Nil
  then show ?case by simp
next
  case (Cons i "is")
  then have d: "distinct is" and ni: "i \<notin> set is"
    by auto
  show ?case
  proof (cases "CheckPockets_ball i g c a")
    case (Returned g1)
    with CheckPockets_ball_Returned[OF Returned] show ?thesis by auto
  next
    case (Scanning g1 c1 a1)
    note fr = CheckPockets_ball_Scanning[OF Scanning]
    have same: "\<And>j. j \<in> set is \<Longrightarrow>
        (sinks g1 j \<and> btype (balls g1 ! j) = BALL_EIGHT) = (sinks g j \<and> btype (balls g ! j) = BALL_EIGHT)"
      using fr(6,7) ni by (metis sinks_cong)
    have "(\<exists>g'. CheckPockets_loop (i # is) (Scanning g c a) = Returned g') \<longleftrightarrow>
          (\<exists>g'. CheckPockets_loop is (Scanning g1 c1 a1) = Returned g')"
      using Scanning by simp
    also have "\<dots> \<longleftrightarrow> (\<exists>j\<in>set is. j \<noteq> 0 \<and> sinks g1 j \<and> btype (balls g1 ! j) = BALL_EIGHT)"
      using Cons.IH[OF d] .
    also have "\<dots> \<longleftrightarrow> (\<exists>j\<in>set is. j \<noteq> 0 \<and> sinks g j \<and> btype (balls g ! j) = BALL_EIGHT)"
      using same by blast
    also have "\<dots> \<longleftrightarrow> (\<exists>j\<in>set (i # is). j \<noteq> 0 \<and> sinks g j \<and> btype (balls g ! j) = BALL_EIGHT)"
      using fr(10) by auto
    finally show ?thesis .
  qed
qed

lemma CheckPockets_loop_cue:
  assumes "distinct is" "CheckPockets_loop is (Scanning g c a) = Scanning g' c' a'"
  shows "c' = (c \<or> (0 \<in> set is \<and> sinks g 0))"
  using assms
proof (induction "is" arbitrary: g c a)
  case Nil
  then show ?case by simp
next
  case (Cons i "is")
  then have d: "distinct is" and ni: "i \<notin> set is" by auto
  show ?case
  proof (cases "CheckPockets_ball i g c a")
    case (Returned g1)
    with Cons.prems show ?thesis by simp
  next
    case (Scanning g1 c1 a1)
    note fr = CheckPockets_ball_Scanning[OF Scanning]
    have same: "0 \<in> set is \<Longrightarrow> sinks g1 0 = sinks g 0"
      using fr(6) ni by (metis sinks_cong)
    from Cons.prems Scanning have "CheckPockets_loop is (Scanning g1 c1 a1) = Scanning g' c' a'"
      by simp
    from Cons.IH[OF d this] have "c' = (c1 \<or> (0 \<in> set is \<and> sinks g1 0))" .
    with same fr(8) show ?thesis by auto
  qed
qed

lemma CheckPockets_loop_any:
  assumes "distinct is" "CheckPockets_loop is (Scanning g c a) = Scanning g' c' a'"
  shows "a' = (a \<or> (\<exists>i\<in>set is. sinks g i))"
  using assms
proof (induction "is" arbitrary: g c a)
  case Nil
  then show ?case by simp
next
  case (Cons i "is")
  then have d: "distinct is" and ni: "i \<notin> set is" by auto
  show ?case
  proof (cases "CheckPockets_ball i g c a")
    case (Returned g1)
    with Cons.prems show ?thesis by simp
  next
    case (Scanning g1 c1 a1)
    note fr = CheckPockets_ball_Scanning[OF Scanning]
    have same: "\<And>j. j \<in> set is \<Longrightarrow> sinks g1 j = sinks g j"
      using fr(6) ni by (metis sinks_cong)
    from Cons.prems Scanning have "CheckPockets_loop is (Scanning g1 c1 a1) = Scanning g' c' a'"
      by simp
    from Cons.IH[OF d this] have "a' = (a1 \<or> (\<exists>i\<in>set is. sinks g1 i))" .
    with same fr(9) show ?thesis by auto
  qed
qed

lemma eight_sinks_iff:
  "eight_sinks g \<longleftrightarrow>
     (\<exists>i\<in>set [0..<MAX_BALLS]. i \<noteq> 0 \<and> sinks g i \<and> btype (balls g ! i) = BALL_EIGHT)"
  by (simp add: eight_sinks_def list_ex_iff)

lemma CheckPockets_eight:
  assumes "eight_sinks g"
  shows "state (CheckPockets g) = (if group_cleared g then GAME_WON else GAME_LOST)"
    "players (CheckPockets g) = players g"
    "currentPlayer (CheckPockets g) = currentPlayer g"
    "statusMessage (CheckPockets g) = statusMessage g"
proof -
  from assms obtain g' where r: "CheckPockets_loop [0..<MAX_BALLS] (Scanning g False False) = Returned g'"
    using CheckPockets_loop_returns_iff[of "[0..<MAX_BALLS]" g False False]
    by (auto simp: eight_sinks_iff)
  then have eq: "CheckPockets g = g'" by (simp add: CheckPockets_def)
  from CheckPockets_loop_Returned_frame[OF r] eq
  show "state (CheckPockets g) = (if group_cleared g then GAME_WON else GAME_LOST)"
    "players (CheckPockets g) = players g"
    "currentPlayer (CheckPockets g) = currentPlayer g"
    "statusMessage (CheckPockets g) = statusMessage g"
    by simp_all
qed

lemma CheckPockets_no_eight:
  assumes "\<not> eight_sinks g"
  shows "state (CheckPockets g) = (if sinks g 0 then GAME_SCRATCH else state g)"
    "players (CheckPockets g) = players g"
    "currentPlayer (CheckPockets g) = (if sinks g 0 then 1 - currentPlayer g else currentPlayer g)"
    "statusMessage (CheckPockets g) =
       (if any_sinks g
        then name (players g ! nat (if sinks g 0 then 1 - currentPlayer g else currentPlayer g))
               @ '' pocketed a ball!''
        else statusMessage g)"
proof -
  have "\<not> (\<exists>g'. CheckPockets_loop [0..<MAX_BALLS] (Scanning g False False) = Returned g')"
    using assms CheckPockets_loop_returns_iff[of "[0..<MAX_BALLS]" g False False]
    by (simp add: eight_sinks_iff)
  then obtain g' c' a' where
    r: "CheckPockets_loop [0..<MAX_BALLS] (Scanning g False False) = Scanning g' c' a'"
    by (cases "CheckPockets_loop [0..<MAX_BALLS] (Scanning g False False)") auto
  have c: "c' = sinks g 0"
    using CheckPockets_loop_cue[OF _ r] by (simp add: MAX_BALLS_def)
  have a: "a' = any_sinks g"
    using CheckPockets_loop_any[OF _ r] by (simp add: any_sinks_def list_ex_iff)
  have cimpa: "sinks g 0 \<Longrightarrow> any_sinks g"
    by (auto simp: any_sinks_def list_ex_iff MAX_BALLS_def)
  note fr = CheckPockets_loop_Scanning[OF r]
  show "state (CheckPockets g) = (if sinks g 0 then GAME_SCRATCH else state g)"
    using fr c a by (simp add: CheckPockets_def r ApplyScratch_def Let_def)
  show "players (CheckPockets g) = players g"
    using fr c a by (simp add: CheckPockets_def r ApplyScratch_def Let_def)
  show "currentPlayer (CheckPockets g) = (if sinks g 0 then 1 - currentPlayer g else currentPlayer g)"
    using fr c a by (simp add: CheckPockets_def r ApplyScratch_def Let_def)
  show "statusMessage (CheckPockets g) =
       (if any_sinks g
        then name (players g ! nat (if sinks g 0 then 1 - currentPlayer g else currentPlayer g))
               @ '' pocketed a ball!''
        else statusMessage g)"
    using fr c a cimpa by (simp add: CheckPockets_def r ApplyScratch_def Let_def)
qed



section \<open>The pocket scan of \<^verbatim>\<open>previous.c\<close>\<close>


lemma upd_name:
  "name (ps[k := (ps ! k)\<lparr>ptype := t\<rparr>] ! j) = name (ps ! j)"
  by (cases "k < length ps"; cases "j = k") (simp_all add: list_update_beyond)

lemma upd_remaining:
  "ballsRemaining (ps[k := (ps ! k)\<lparr>ptype := t\<rparr>] ! j) = ballsRemaining (ps ! j)"
  by (cases "k < length ps"; cases "j = k") (simp_all add: list_update_beyond)

lemma dec_name:
  "name (ps[k := (ps ! k)\<lparr>ballsRemaining := r\<rparr>] ! j) = name (ps ! j)"
  by (cases "k < length ps"; cases "j = k") (simp_all add: list_update_beyond)

lemma dec_ptype:
  "ptype (ps[k := (ps ! k)\<lparr>ballsRemaining := r\<rparr>] ! j) = ptype (ps ! j)"
  by (cases "k < length ps"; cases "j = k") (simp_all add: list_update_beyond)

lemma assign_types_frame:
  "balls (assign_types g m t) = balls g" "currentPlayer (assign_types g m t) = currentPlayer g"
  "state (assign_types g m t) = state g" "statusMessage (assign_types g m t) = statusMessage g"
  "firstShot (assign_types g m t) = firstShot g" "assignedTypes (assign_types g m t) = assignedTypes g"
  "cueBallPos (assign_types g m t) = cueBallPos g"
  "length (players (assign_types g m t)) = length (players g)"
  "name (players (assign_types g m t) ! j) = name (players g ! j)"
  "ballsRemaining (players (assign_types g m t) ! j) = ballsRemaining (players g ! j)"
  by (simp_all add: assign_types_def Let_def upd_name upd_remaining)

lemma chkPockets_ball_Scanning:
  assumes "chkPockets_ball i g c a = Scanning g' c' a'"
  shows "firstShot g' = firstShot g" "currentPlayer g' = currentPlayer g" "state g' = state g"
    "statusMessage g' = statusMessage g" "length (balls g') = length (balls g)"
    "\<And>j. j \<noteq> i \<Longrightarrow> balls g' ! j = balls g ! j"
    "\<And>j. btype (balls g' ! j) = btype (balls g ! j)"
    "c' = (c \<or> (i = 0 \<and> sinks g 0))" "a' = (a \<or> sinks g i)"
    "i \<noteq> 0 \<Longrightarrow> \<not> (sinks g i \<and> btype (balls g ! i) = BALL_EIGHT)"
    "\<And>j. name (players g' ! j) = name (players g ! j)"
    "length (players g') = length (players g)"
  using assms
  by (auto simp: chkPockets_ball_def sinks_def Let_def sunk_btype assign_types_frame dec_name
      split: if_splits option.splits)

lemma chkPockets_ball_Returned:
  assumes "chkPockets_ball i g c a = Returned g'"
  shows "i \<noteq> 0" "sinks g i" "btype (balls g ! i) = BALL_EIGHT"
    "state g' = (if group_cleared g' then GAME_WON else GAME_LOST)"
    "currentPlayer g' = currentPlayer g"
    "statusMessage g' = statusMessage g"
    "balls g' = (balls g)[i := (balls g ! i)\<lparr>pocketed := True, velocity := vec 0 0\<rparr>]"
    "firstShot g' = firstShot g"
  using assms
  by (auto simp: chkPockets_ball_def sinks_def Let_def sunk_btype group_cleared_def assign_types_frame
      split: if_splits option.splits)

lemma chkPockets_ball_fixed:
  assumes "\<not> firstShot g"
  shows "chkPockets_ball i g c a = Scanning g' c' a' \<Longrightarrow>
           map ptype (players g') = map ptype (players g) \<and> assignedTypes g' = assignedTypes g"
    and "chkPockets_ball i g c a = Returned g' \<Longrightarrow>
           map ptype (players g') = map ptype (players g) \<and> assignedTypes g' = assignedTypes g"
  using assms
  by (auto simp: chkPockets_ball_def Let_def list_eq_iff_nth_eq dec_ptype
      split: if_splits option.splits)

lemma chkPockets_loop_Returned [simp]: "chkPockets_loop is (Returned g) = Returned g"
  by (cases "is") simp_all

lemma chkPockets_loop_append:
  "chkPockets_loop (xs @ ys) s = chkPockets_loop ys (chkPockets_loop xs s)"
proof (induction xs arbitrary: s)
  case Nil
  then show ?case by simp
next
  case (Cons i xs)
  then show ?case by (cases s) simp_all
qed

lemma chkPockets_loop_returns_iff:
  assumes "distinct is"
  shows "(\<exists>g'. chkPockets_loop is (Scanning g c a) = Returned g') \<longleftrightarrow>
         (\<exists>i\<in>set is. i \<noteq> 0 \<and> sinks g i \<and> btype (balls g ! i) = BALL_EIGHT)"
  using assms
proof (induction "is" arbitrary: g c a)
  case Nil
  then show ?case by simp
next
  case (Cons i "is")
  then have d: "distinct is" and ni: "i \<notin> set is"
    by auto
  show ?case
  proof (cases "chkPockets_ball i g c a")
    case (Returned g1)
    with chkPockets_ball_Returned[OF Returned] show ?thesis by auto
  next
    case (Scanning g1 c1 a1)
    note fr = chkPockets_ball_Scanning[OF Scanning]
    have same: "\<And>j. j \<in> set is \<Longrightarrow>
        (sinks g1 j \<and> btype (balls g1 ! j) = BALL_EIGHT) = (sinks g j \<and> btype (balls g ! j) = BALL_EIGHT)"
      using fr(6,7) ni by (metis sinks_cong)
    have "(\<exists>g'. chkPockets_loop (i # is) (Scanning g c a) = Returned g') \<longleftrightarrow>
          (\<exists>g'. chkPockets_loop is (Scanning g1 c1 a1) = Returned g')"
      using Scanning by simp
    also have "\<dots> \<longleftrightarrow> (\<exists>j\<in>set is. j \<noteq> 0 \<and> sinks g1 j \<and> btype (balls g1 ! j) = BALL_EIGHT)"
      using Cons.IH[OF d] .
    also have "\<dots> \<longleftrightarrow> (\<exists>j\<in>set is. j \<noteq> 0 \<and> sinks g j \<and> btype (balls g ! j) = BALL_EIGHT)"
      using same by blast
    also have "\<dots> \<longleftrightarrow> (\<exists>j\<in>set (i # is). j \<noteq> 0 \<and> sinks g j \<and> btype (balls g ! j) = BALL_EIGHT)"
      using fr(10) by auto
    finally show ?thesis .
  qed
qed

lemma chkPockets_loop_cue:
  assumes "distinct is" "chkPockets_loop is (Scanning g c a) = Scanning g' c' a'"
  shows "c' = (c \<or> (0 \<in> set is \<and> sinks g 0))"
  using assms
proof (induction "is" arbitrary: g c a)
  case Nil
  then show ?case by simp
next
  case (Cons i "is")
  then have d: "distinct is" and ni: "i \<notin> set is" by auto
  show ?case
  proof (cases "chkPockets_ball i g c a")
    case (Returned g1)
    with Cons.prems show ?thesis by simp
  next
    case (Scanning g1 c1 a1)
    note fr = chkPockets_ball_Scanning[OF Scanning]
    have same: "0 \<in> set is \<Longrightarrow> sinks g1 0 = sinks g 0"
      using fr(6) ni by (metis sinks_cong)
    from Cons.prems Scanning have "chkPockets_loop is (Scanning g1 c1 a1) = Scanning g' c' a'"
      by simp
    from Cons.IH[OF d this] have "c' = (c1 \<or> (0 \<in> set is \<and> sinks g1 0))" .
    with same fr(8) show ?thesis by auto
  qed
qed

lemma chkPockets_loop_any:
  assumes "distinct is" "chkPockets_loop is (Scanning g c a) = Scanning g' c' a'"
  shows "a' = (a \<or> (\<exists>i\<in>set is. sinks g i))"
  using assms
proof (induction "is" arbitrary: g c a)
  case Nil
  then show ?case by simp
next
  case (Cons i "is")
  then have d: "distinct is" and ni: "i \<notin> set is" by auto
  show ?case
  proof (cases "chkPockets_ball i g c a")
    case (Returned g1)
    with Cons.prems show ?thesis by simp
  next
    case (Scanning g1 c1 a1)
    note fr = chkPockets_ball_Scanning[OF Scanning]
    have same: "\<And>j. j \<in> set is \<Longrightarrow> sinks g1 j = sinks g j"
      using fr(6) ni by (metis sinks_cong)
    from Cons.prems Scanning have "chkPockets_loop is (Scanning g1 c1 a1) = Scanning g' c' a'"
      by simp
    from Cons.IH[OF d this] have "a' = (a1 \<or> (\<exists>i\<in>set is. sinks g1 i))" .
    with same fr(9) show ?thesis by auto
  qed
qed

lemma chkPockets_loop_Scanning:
  assumes "chkPockets_loop is (Scanning g c a) = Scanning g' c' a'"
  shows "firstShot g' = firstShot g \<and> currentPlayer g' = currentPlayer g \<and> state g' = state g \<and>
    statusMessage g' = statusMessage g \<and> length (balls g') = length (balls g) \<and>
    (\<forall>j. j \<notin> set is \<longrightarrow> balls g' ! j = balls g ! j) \<and>
    (\<forall>j. btype (balls g' ! j) = btype (balls g ! j)) \<and>
    (\<forall>j. name (players g' ! j) = name (players g ! j)) \<and>
    length (players g') = length (players g)"
  using assms
proof (induction "is" arbitrary: g c a)
  case Nil
  then show ?case by simp
next
  case (Cons i "is")
  show ?case
  proof (cases "chkPockets_ball i g c a")
    case (Returned g1)
    with Cons.prems show ?thesis by simp
  next
    case (Scanning g1 c1 a1)
    with Cons.prems have "chkPockets_loop is (Scanning g1 c1 a1) = Scanning g' c' a'"
      by simp
    from Cons.IH[OF this] chkPockets_ball_Scanning[OF Scanning]
    show ?thesis by auto
  qed
qed

lemma chkPockets_loop_Returned_frame:
  assumes "chkPockets_loop is (Scanning g c a) = Returned g'"
  shows "currentPlayer g' = currentPlayer g \<and> statusMessage g' = statusMessage g \<and>
    state g' = (if group_cleared g' then GAME_WON else GAME_LOST)"
  using assms
proof (induction "is" arbitrary: g c a)
  case Nil
  then show ?case by simp
next
  case (Cons i "is")
  show ?case
  proof (cases "chkPockets_ball i g c a")
    case (Returned g1)
    with Cons.prems have "g' = g1" by simp
    with chkPockets_ball_Returned[OF Returned] show ?thesis by simp
  next
    case (Scanning g1 c1 a1)
    with Cons.prems have "chkPockets_loop is (Scanning g1 c1 a1) = Returned g'"
      by simp
    from Cons.IH[OF this] chkPockets_ball_Scanning[OF Scanning]
    show ?thesis by simp
  qed
qed

lemma chkPockets_loop_fixed:
  assumes "\<not> firstShot g"
  shows "map ptype (players (scan_game (chkPockets_loop is (Scanning g c a)))) = map ptype (players g) \<and>
         assignedTypes (scan_game (chkPockets_loop is (Scanning g c a))) = assignedTypes g"
  using assms
proof (induction "is" arbitrary: g c a)
  case Nil
  then show ?case by simp
next
  case (Cons i "is")
  show ?case
  proof (cases "chkPockets_ball i g c a")
    case (Returned g1)
    with chkPockets_ball_fixed(2)[OF Cons.prems Returned] show ?thesis by simp
  next
    case (Scanning g1 c1 a1)
    have "\<not> firstShot g1"
      using chkPockets_ball_Scanning(1)[OF Scanning] Cons.prems by simp
    from Cons.IH[OF this, of c1 a1] chkPockets_ball_fixed(1)[OF Cons.prems Scanning] Scanning
    show ?thesis by simp
  qed
qed

lemma chkPockets_fixed:
  assumes "\<not> firstShot g"
  shows "map ptype (players (chkPockets g)) = map ptype (players g)"
    "assignedTypes (chkPockets g) = assignedTypes g"
  using chkPockets_loop_fixed[OF assms, of "[0..<MAX_BALLS]" False False]
  by (auto simp: chkPockets_def applyScratch_def Let_def split: scan.splits)

lemma chkPockets_eight:
  assumes "eight_sinks g"
  shows "state (chkPockets g) = (if group_cleared (chkPockets g) then GAME_WON else GAME_LOST)"
    "currentPlayer (chkPockets g) = currentPlayer g"
    "statusMessage (chkPockets g) = statusMessage g"
proof -
  from assms obtain g' where r: "chkPockets_loop [0..<MAX_BALLS] (Scanning g False False) = Returned g'"
    using chkPockets_loop_returns_iff[of "[0..<MAX_BALLS]" g False False]
    by (auto simp: eight_sinks_iff)
  then have eq: "chkPockets g = g'" by (simp add: chkPockets_def)
  from chkPockets_loop_Returned_frame[OF r] eq
  show "state (chkPockets g) = (if group_cleared (chkPockets g) then GAME_WON else GAME_LOST)"
    "currentPlayer (chkPockets g) = currentPlayer g"
    "statusMessage (chkPockets g) = statusMessage g"
    by simp_all
qed

lemma chkPockets_no_eight:
  assumes "\<not> eight_sinks g"
  shows "state (chkPockets g) = (if sinks g 0 then GAME_SCRATCH else state g)"
    "currentPlayer (chkPockets g) = (if sinks g 0 then 1 - currentPlayer g else currentPlayer g)"
    "statusMessage (chkPockets g) =
       (if any_sinks g
        then name (players g ! nat (if sinks g 0 then 1 - currentPlayer g else currentPlayer g))
               @ '' pocketed a ball!''
        else statusMessage g)"
proof -
  have "\<not> (\<exists>g'. chkPockets_loop [0..<MAX_BALLS] (Scanning g False False) = Returned g')"
    using assms chkPockets_loop_returns_iff[of "[0..<MAX_BALLS]" g False False]
    by (simp add: eight_sinks_iff)
  then obtain g' c' a' where
    r: "chkPockets_loop [0..<MAX_BALLS] (Scanning g False False) = Scanning g' c' a'"
    by (cases "chkPockets_loop [0..<MAX_BALLS] (Scanning g False False)") auto
  have c: "c' = sinks g 0"
    using chkPockets_loop_cue[OF _ r] by (simp add: MAX_BALLS_def)
  have a: "a' = any_sinks g"
    using chkPockets_loop_any[OF _ r] by (simp add: any_sinks_def list_ex_iff)
  have cimpa: "sinks g 0 \<Longrightarrow> any_sinks g"
    by (auto simp: any_sinks_def list_ex_iff MAX_BALLS_def)
  note fr = chkPockets_loop_Scanning[OF r]
  show "state (chkPockets g) = (if sinks g 0 then GAME_SCRATCH else state g)"
    using fr c a by (simp add: chkPockets_def r applyScratch_def Let_def)
  show "currentPlayer (chkPockets g) = (if sinks g 0 then 1 - currentPlayer g else currentPlayer g)"
    using fr c a by (simp add: chkPockets_def r applyScratch_def Let_def)
  show "statusMessage (chkPockets g) =
       (if any_sinks g
        then name (players g ! nat (if sinks g 0 then 1 - currentPlayer g else currentPlayer g))
               @ '' pocketed a ball!''
        else statusMessage g)"
    using fr c a cimpa by (simp add: chkPockets_def r applyScratch_def Let_def)
qed


section \<open>Evaluating the example states\<close>

lemma rack_slots_eval:
  "rack_slots = [(0,0),(1,0),(1,1),(2,0),(2,1),(2,2),(3,0),(3,1),(3,2),(3,3),(4,0),(4,1),(4,2),(4,3),(4,4)]"
  unfolding rack_slots_def by (simp add: upt_rec)

lemma rack_balls:
  "balls (InitGame g) =
    [\<lparr>position = vec 200 200, velocity = vec 0 0, btype = BALL_CUE, number = 0, pocketed = False, isStriped = False\<rparr>,
     \<lparr>position = vec 576 200, velocity = vec 0 0, btype = BALL_SOLID, number = 1, pocketed = False, isStriped = False\<rparr>,
     \<lparr>position = vec 602.4 185, velocity = vec 0 0, btype = BALL_SOLID, number = 2, pocketed = False, isStriped = False\<rparr>,
     \<lparr>position = vec 602.4 215, velocity = vec 0 0, btype = BALL_SOLID, number = 3, pocketed = False, isStriped = False\<rparr>,
     \<lparr>position = vec 628.8 170, velocity = vec 0 0, btype = BALL_SOLID, number = 4, pocketed = False, isStriped = False\<rparr>,
     \<lparr>position = vec 628.8 200, velocity = vec 0 0, btype = BALL_SOLID, number = 5, pocketed = False, isStriped = False\<rparr>,
     \<lparr>position = vec 628.8 230, velocity = vec 0 0, btype = BALL_SOLID, number = 6, pocketed = False, isStriped = False\<rparr>,
     \<lparr>position = vec 655.2 155, velocity = vec 0 0, btype = BALL_SOLID, number = 7, pocketed = False, isStriped = False\<rparr>,
     \<lparr>position = vec 655.2 185, velocity = vec 0 0, btype = BALL_EIGHT, number = 8, pocketed = False, isStriped = False\<rparr>,
     \<lparr>position = vec 655.2 215, velocity = vec 0 0, btype = BALL_STRIPE, number = 9, pocketed = False, isStriped = True\<rparr>,
     \<lparr>position = vec 655.2 245, velocity = vec 0 0, btype = BALL_STRIPE, number = 10, pocketed = False, isStriped = True\<rparr>,
     \<lparr>position = vec 681.6 140, velocity = vec 0 0, btype = BALL_STRIPE, number = 11, pocketed = False, isStriped = True\<rparr>,
     \<lparr>position = vec 681.6 170, velocity = vec 0 0, btype = BALL_STRIPE, number = 12, pocketed = False, isStriped = True\<rparr>,
     \<lparr>position = vec 681.6 200, velocity = vec 0 0, btype = BALL_STRIPE, number = 13, pocketed = False, isStriped = True\<rparr>,
     \<lparr>position = vec 681.6 230, velocity = vec 0 0, btype = BALL_STRIPE, number = 14, pocketed = False, isStriped = True\<rparr>,
     \<lparr>position = vec 681.6 260, velocity = vec 0 0, btype = BALL_STRIPE, number = 15, pocketed = False, isStriped = True\<rparr>]"
  by (simp add: InitGame_def ResetBalls_def rack_slots_eval MAX_BALLS_def Let_def rack_ball_def
      TABLE_WIDTH_def TABLE_HEIGHT_def BALL_RADIUS_def)

lemma pocket_hit_None_iff:
  "pocket_hit p = None \<longleftrightarrow> \<not> (\<exists>q\<in>set pockets. Distance p q < POCKET_RADIUS)"
  by (auto simp: pocket_hit_def find_None_iff)

lemma Distance_less_iff:
  "0 < r \<Longrightarrow> Distance p q < r \<longleftrightarrow>
     (vec_x p - vec_x q) * (vec_x p - vec_x q) + (vec_y p - vec_y q) * (vec_y p - vec_y q) < r * r"
  by (simp add: Distance_def Let_def sqrt_less_iff)

lemma pocket_hit_eval:
  "pocket_hit p = None \<longleftrightarrow> \<not> near_pocket p"
  "(\<exists>q. pocket_hit p = Some q) \<longleftrightarrow> near_pocket p"
proof -
  show "pocket_hit p = None \<longleftrightarrow> \<not> near_pocket p"
    by (simp add: pocket_hit_None_iff pockets_def Distance_less_iff POCKET_RADIUS_def RAIL_WIDTH_def
        TABLE_WIDTH_def TABLE_HEIGHT_def near_pocket_def)
  then show "(\<exists>q. pocket_hit p = Some q) \<longleftrightarrow> near_pocket p"
    by (metis not_None_eq)
qed

lemmas fixture_eval = sinks_def move_ball_to_def in_play_def rack_start_def rack_balls
  pocket_hit_eval near_pocket_def


lemma CheckPockets_ball_eval:
  "CheckPockets_ball i g c a =
     (if \<not> sinks g i then Scanning g c a
      else if i = 0
        then Scanning (g\<lparr>balls := (balls g)[i := (balls g ! i)\<lparr>pocketed := True, velocity := vec 0 0\<rparr>],
                         cueBallPos := vec 200 200\<rparr>) True True
      else if btype (balls g ! i) = BALL_EIGHT
        then Returned (g\<lparr>balls := (balls g)[i := (balls g ! i)\<lparr>pocketed := True, velocity := vec 0 0\<rparr>],
                         state := (if group_cleared g then GAME_WON else GAME_LOST)\<rparr>)
      else Scanning (g\<lparr>balls := (balls g)[i := (balls g ! i)\<lparr>pocketed := True, velocity := vec 0 0\<rparr>]\<rparr>) c True)"
  by (auto simp: CheckPockets_ball_def sinks_def Let_def sunk_btype group_cleared_def
      TABLE_WIDTH_def TABLE_HEIGHT_def split: option.splits)

lemma InitGame_fields:
  "players (InitGame g) = [\<lparr>ptype = PLAYER_NONE, ballsRemaining = 7, name = ''Player 1''\<rparr>,
                           \<lparr>ptype = PLAYER_NONE, ballsRemaining = 7, name = ''Player 2''\<rparr>]"
  "currentPlayer (InitGame g) = 0" "state (InitGame g) = GAME_START"
  "firstShot (InitGame g) = True" "assignedTypes (InitGame g) = False"
  "ballsMoving (InitGame g) = False" "aiming (InitGame g) = False"
  "stickPullPixels (InitGame g) = 0" "stickRecoil (InitGame g) = False"
  "statusMessage (InitGame g) = ''Break shot: click on cue, drag back, release to shoot''"
  "cueBallPos (InitGame g) = vec 200 200"
  by (simp_all add: InitGame_def ResetBalls_def Let_def rack_slots_eval MAX_BALLS_def
      TABLE_WIDTH_def TABLE_HEIGHT_def)


section \<open>The 8-ball ends the scan; the cue ball is scanned first\<close>


lemma rack_typed_iff:
  "rack_typed g \<longleftrightarrow> (\<forall>i<MAX_BALLS. (btype (balls g ! i) = BALL_EIGHT) = (i = 8))"
  by (auto simp: rack_typed_def list_all_iff)

lemma indices_split: "[0..<MAX_BALLS] = [0..<8] @ 8 # [9..<MAX_BALLS]"
  by (simp add: MAX_BALLS_def upt_rec)

lemma CheckPockets_stops_at_eight:
  assumes len: "length (balls g) = MAX_BALLS" and rt: "rack_typed g" and s8: "sinks g 8"
  shows "pocketed (balls (CheckPockets g) ! 8)"
    and "\<forall>j. 8 < j \<longrightarrow> balls (CheckPockets g) ! j = balls g ! j"
proof -
  have "\<not> (\<exists>i\<in>set [0..<8]. i \<noteq> 0 \<and> sinks g i \<and> btype (balls g ! i) = BALL_EIGHT)"
    using rt by (auto simp: rack_typed_iff MAX_BALLS_def)
  then have "\<not> (\<exists>g'. CheckPockets_loop [0..<8] (Scanning g False False) = Returned g')"
    using CheckPockets_loop_returns_iff[of "[0..<8]" g False False] by simp
  then obtain g7 c a where r7: "CheckPockets_loop [0..<8] (Scanning g False False) = Scanning g7 c a"
    by (cases "CheckPockets_loop [0..<8] (Scanning g False False)") auto
  note fr = CheckPockets_loop_Scanning[OF r7]
  have same: "\<And>j. 8 \<le> j \<Longrightarrow> balls g7 ! j = balls g ! j"
    using fr by simp
  have "sinks g7 8" using s8 same[of 8] by (simp add: sinks_def)
  moreover have "btype (balls g7 ! 8) = BALL_EIGHT"
    using rt same[of 8] by (simp add: rack_typed_iff MAX_BALLS_def)
  ultimately obtain g8 where r8: "CheckPockets_ball 8 g7 c a = Returned g8"
    using CheckPockets_ball_eight[of 8 g7 c a] by auto
  have b8: "balls g8 = (balls g7)[8 := (balls g7 ! 8)\<lparr>pocketed := True, velocity := vec 0 0\<rparr>]"
    using CheckPockets_ball_Returned(8)[OF r8] .
  have "CheckPockets_loop [0..<MAX_BALLS] (Scanning g False False) = Returned g8"
    by (simp add: indices_split CheckPockets_loop_append r7 r8)
  then have eq: "CheckPockets g = g8" by (simp add: CheckPockets_def)
  have l7: "length (balls g7) = 16" using fr len by (simp add: MAX_BALLS_def)
  show "pocketed (balls (CheckPockets g) ! 8)"
    using l7 by (simp add: eq b8)
  show "\<forall>j. 8 < j \<longrightarrow> balls (CheckPockets g) ! j = balls g ! j"
    using same by (simp add: eq b8)
qed

lemma chkPockets_stops_at_eight:
  assumes len: "length (balls g) = MAX_BALLS" and rt: "rack_typed g" and s8: "sinks g 8"
  shows "pocketed (balls (chkPockets g) ! 8)"
    and "\<forall>j. 8 < j \<longrightarrow> balls (chkPockets g) ! j = balls g ! j"
proof -
  have "\<not> (\<exists>i\<in>set [0..<8]. i \<noteq> 0 \<and> sinks g i \<and> btype (balls g ! i) = BALL_EIGHT)"
    using rt by (auto simp: rack_typed_iff MAX_BALLS_def)
  then have "\<not> (\<exists>g'. chkPockets_loop [0..<8] (Scanning g False False) = Returned g')"
    using chkPockets_loop_returns_iff[of "[0..<8]" g False False] by simp
  then obtain g7 c a where r7: "chkPockets_loop [0..<8] (Scanning g False False) = Scanning g7 c a"
    by (cases "chkPockets_loop [0..<8] (Scanning g False False)") auto
  note fr = chkPockets_loop_Scanning[OF r7]
  have same: "\<And>j. 8 \<le> j \<Longrightarrow> balls g7 ! j = balls g ! j"
    using fr by simp
  have s: "sinks g7 8" using s8 same[of 8] by (simp add: sinks_def)
  have e: "btype (balls g7 ! 8) = BALL_EIGHT"
    using rt same[of 8] by (simp add: rack_typed_iff MAX_BALLS_def)
  have "\<exists>g'. chkPockets_loop [8] (Scanning g7 c a) = Returned g'"
    using chkPockets_loop_returns_iff[of "[8]" g7 c a] s e by simp
  then obtain g8 where r8: "chkPockets_ball 8 g7 c a = Returned g8"
    by auto
  have b8: "balls g8 = (balls g7)[8 := (balls g7 ! 8)\<lparr>pocketed := True, velocity := vec 0 0\<rparr>]"
    using chkPockets_ball_Returned(7)[OF r8] .
  have "chkPockets_loop [0..<MAX_BALLS] (Scanning g False False) = Returned g8"
    by (simp add: indices_split chkPockets_loop_append r7 r8)
  then have eq: "chkPockets g = g8" by (simp add: chkPockets_def)
  have l7: "length (balls g7) = 16" using fr len by (simp add: MAX_BALLS_def)
  show "pocketed (balls (chkPockets g) ! 8)"
    using l7 by (simp add: eq b8)
  show "\<forall>j. 8 < j \<longrightarrow> balls (chkPockets g) ! j = balls g ! j"
    using same by (simp add: eq b8)
qed

lemma rack_typed_eight_sinks:
  "rack_typed g \<Longrightarrow> eight_sinks g = sinks g 8"
  by (auto simp: eight_sinks_iff rack_typed_iff MAX_BALLS_def)

lemma handleInput_shot_clears_firstShot:
  assumes "\<not> keyR inp" "state g \<noteq> GAME_SCRATCH"
    "velocity (balls (handleInput inp g) ! 0) \<noteq> velocity (balls g ! 0)"
  shows "\<not> firstShot (handleInput inp g)"
proof -
  define cuePos where "cuePos = (if pocketed (balls g ! 0) then cueBallPos g else position (balls g ! 0))"
  define g1 where "g1 = (if mousePressed inp \<and> Distance (mousePos inp) cuePos \<le> BALL_RADIUS * 1.6
                  then g\<lparr>aiming := True, dragStart := mousePos inp,
                          stickPullPixels := 0, shotPower := 0\<rparr>
                  else g)"
  define g2 where "g2 = (if mouseDown inp \<and> aiming g1 then
                    let d0 = Distance (mousePos inp) cuePos;
                        d = (if d0 > MAX_POWER_PIXELS then MAX_POWER_PIXELS else d0)
                    in g1\<lparr>stickPullPixels := d, shotPower := d / MAX_POWER_PIXELS\<rparr>
                  else g1)"
  have b2: "balls g2 = balls g"
    by (simp add: g2_def g1_def Let_def)
  have hi: "handleInput inp g =
      (if ballsMoving g then g
       else if mouseReleased inp \<and> aiming g2 then handleInput_shoot (mousePos inp) cuePos g2 else g2)"
    using assms(1,2) by (simp add: handleInput_def Let_def g2_def g1_def cuePos_def)
  have shoot: "\<And>m c h. balls (handleInput_shoot m c h) \<noteq> balls h \<Longrightarrow> \<not> firstShot (handleInput_shoot m c h)"
    by (simp add: handleInput_shoot_def Let_def split: if_splits)
  from assms(3) have "balls (handleInput inp g) \<noteq> balls g" by auto
  with hi b2 shoot show ?thesis
    by (auto split: if_splits)
qed


lemma chkPockets_ball_eval:
  "chkPockets_ball i g c a =
     (if \<not> sinks g i then Scanning g c a
      else
        let g1 = g\<lparr>balls := (balls g)[i := (balls g ! i)\<lparr>pocketed := True, velocity := vec 0 0\<rparr>]\<rparr>
        in if i = 0 then Scanning (g1\<lparr>cueBallPos := vec 200 200\<rparr>) True True
           else
             let g2 = (if \<not> assignedTypes g \<and> firstShot g
                       then (if btype (balls g ! i) = BALL_SOLID
                             then assign_types g1 PLAYER_SOLIDS PLAYER_STRIPES
                             else assign_types g1 PLAYER_STRIPES PLAYER_SOLIDS)
                            \<lparr>assignedTypes := True\<rparr>
                       else g1)
             in if btype (balls g ! i) = BALL_EIGHT
                then Returned (g2\<lparr>state := (if group_cleared g2 then GAME_WON else GAME_LOST)\<rparr>)
                else
                  let owner = playerIdxForType g2 (btype (balls g ! i))
                  in if owner \<ge> 0 \<and> ballsRemaining (players g2 ! nat owner) > 0
                     then Scanning
                            (g2\<lparr>players := (players g2)[nat owner :=
                                   (players g2 ! nat owner)
                                     \<lparr>ballsRemaining := ballsRemaining (players g2 ! nat owner) - 1\<rparr>]\<rparr>)
                            c True
                     else Scanning g2 c True)"
proof (cases "sinks g i")
  case False
  then show ?thesis by (auto simp: chkPockets_ball_def sinks_def)
next
  case True
  then obtain q where q: "pocket_hit (position (balls g ! i)) = Some q" and np: "\<not> pocketed (balls g ! i)"
    by (auto simp: sinks_def)
  show ?thesis
    using True np
    by (simp add: chkPockets_ball_def q Let_def sunk_btype assign_types_frame group_cleared_def
        TABLE_WIDTH_def TABLE_HEIGHT_def)
qed


lemma CheckPockets_loop_untouched:
  "j \<notin> set is \<Longrightarrow>
     balls (scan_game (CheckPockets_loop is (Scanning g c a))) ! j = balls g ! j"
proof (induction "is" arbitrary: g c a)
  case Nil
  then show ?case by simp
next
  case (Cons i "is")
  then have ji: "j \<noteq> i" and jis: "j \<notin> set is" by auto
  show ?case
  proof (cases "CheckPockets_ball i g c a")
    case (Returned g1)
    then show ?thesis
      using CheckPockets_ball_Returned[OF Returned] ji by simp
  next
    case (Scanning g1 c1 a1)
    then show ?thesis
      using Cons.IH[OF jis, of g1 c1 a1] CheckPockets_ball_Scanning(6)[OF Scanning ji] by simp
  qed
qed

lemma CheckPockets_balls:
  "balls (CheckPockets g) = balls (scan_game (CheckPockets_loop [0..<MAX_BALLS] (Scanning g False False)))"
  by (simp add: CheckPockets_def ApplyScratch_def applyScratch_def Let_def split: scan.splits)

lemma CheckPockets_cue:
  assumes "0 < length (balls g)"
  shows "pocketed (balls (CheckPockets g) ! 0) = (pocketed (balls g ! 0) \<or> sinks g 0)"
proof -
  have idx: "[0..<MAX_BALLS] = 0 # [1..<MAX_BALLS]"
    by (simp add: MAX_BALLS_def upt_rec)
  obtain g0 c0 a0 where r0: "CheckPockets_ball 0 g False False = Scanning g0 c0 a0"
    using CheckPockets_ball_Returned(1)[of 0 g False False]
    by (cases "CheckPockets_ball 0 g False False") auto
  have p0: "pocketed (balls g0 ! 0) = (pocketed (balls g ! 0) \<or> sinks g 0)"
    using r0 assms
    by (auto simp: CheckPockets_ball_def sinks_def Let_def split: if_splits option.splits)
  have "balls (CheckPockets g) ! 0 = balls g0 ! 0"
    using CheckPockets_loop_untouched[of 0 "[1..<MAX_BALLS]" g0 c0 a0]
    by (simp add: CheckPockets_balls idx r0)
  with p0 show ?thesis by simp
qed

lemma chkPockets_loop_untouched:
  "j \<notin> set is \<Longrightarrow>
     balls (scan_game (chkPockets_loop is (Scanning g c a))) ! j = balls g ! j"
proof (induction "is" arbitrary: g c a)
  case Nil
  then show ?case by simp
next
  case (Cons i "is")
  then have ji: "j \<noteq> i" and jis: "j \<notin> set is" by auto
  show ?case
  proof (cases "chkPockets_ball i g c a")
    case (Returned g1)
    then show ?thesis
      using chkPockets_ball_Returned[OF Returned] ji by simp
  next
    case (Scanning g1 c1 a1)
    then show ?thesis
      using Cons.IH[OF jis, of g1 c1 a1] chkPockets_ball_Scanning(6)[OF Scanning ji] by simp
  qed
qed

lemma chkPockets_balls:
  "balls (chkPockets g) = balls (scan_game (chkPockets_loop [0..<MAX_BALLS] (Scanning g False False)))"
  by (simp add: chkPockets_def ApplyScratch_def applyScratch_def Let_def split: scan.splits)

lemma chkPockets_cue:
  assumes "0 < length (balls g)"
  shows "pocketed (balls (chkPockets g) ! 0) = (pocketed (balls g ! 0) \<or> sinks g 0)"
proof -
  have idx: "[0..<MAX_BALLS] = 0 # [1..<MAX_BALLS]"
    by (simp add: MAX_BALLS_def upt_rec)
  obtain g0 c0 a0 where r0: "chkPockets_ball 0 g False False = Scanning g0 c0 a0"
    using chkPockets_ball_Returned(1)[of 0 g False False]
    by (cases "chkPockets_ball 0 g False False") auto
  have p0: "pocketed (balls g0 ! 0) = (pocketed (balls g ! 0) \<or> sinks g 0)"
    using r0 assms
    by (auto simp: chkPockets_ball_def sinks_def Let_def split: if_splits option.splits)
  have "balls (chkPockets g) ! 0 = balls g0 ! 0"
    using chkPockets_loop_untouched[of 0 "[1..<MAX_BALLS]" g0 c0 a0]
    by (simp add: chkPockets_balls idx r0)
  with p0 show ?thesis by simp
qed


section \<open>Assignment and count in \<^verbatim>\<open>previous.c\<close>\<close>


text \<open>
  What the assignment block of \<^verbatim>\<open>chkPockets\<close> does when its guard is open: at the first
  object ball that sinks the current player gets the solids for a solid ball and the
  stripes for any other ball, the opponent the other group.
\<close>

lemma chkPockets_ball_assigns:
  assumes "i \<noteq> 0" "sinks g i" "\<not> assignedTypes g" "firstShot g"
    "length (players g) = 2" "currentPlayer g = 0 \<or> currentPlayer g = 1"
  shows "ptype (players (scan_game (chkPockets_ball i g c a)) ! nat (currentPlayer g)) =
           (if btype (balls g ! i) = BALL_SOLID then PLAYER_SOLIDS else PLAYER_STRIPES) \<and>
         ptype (players (scan_game (chkPockets_ball i g c a)) ! nat (1 - currentPlayer g)) =
           (if btype (balls g ! i) = BALL_SOLID then PLAYER_STRIPES else PLAYER_SOLIDS) \<and>
         assignedTypes (scan_game (chkPockets_ball i g c a))"
  using assms
  by (auto simp: chkPockets_ball_eval assign_types_def Let_def dec_ptype)

text \<open>
  The count of \<^verbatim>\<open>chkPockets\<close>: when a ball other than the cue ball and the 8-ball sinks
  and a player owns its group, that player's count goes down by one, unless it is already
  zero; no other player is written. Counts that are not negative stay so.
\<close>

lemma playerIdxForType_balls:
  "playerIdxForType (g\<lparr>balls := bs\<rparr>) t = playerIdxForType g t"
  by (simp add: playerIdxForType_def)

lemma chkPockets_ball_counts:
  assumes "i \<noteq> 0" "sinks g i" "btype (balls g ! i) \<noteq> BALL_EIGHT" "assignedTypes g"
    "playerIdxForType g (btype (balls g ! i)) = int k" "k < length (players g)"
  shows "ballsRemaining (players (scan_game (chkPockets_ball i g c a)) ! k) =
           (if ballsRemaining (players g ! k) > 0 then ballsRemaining (players g ! k) - 1
            else ballsRemaining (players g ! k)) \<and>
         (\<forall>j. j \<noteq> k \<longrightarrow> players (scan_game (chkPockets_ball i g c a)) ! j = players g ! j)"
  using assms
  by (simp add: chkPockets_ball_eval Let_def playerIdxForType_balls)

lemma ptype_update_nonneg:
  "list_all (\<lambda>p. 0 \<le> ballsRemaining p) ps \<Longrightarrow>
     list_all (\<lambda>p. 0 \<le> ballsRemaining p) (ps[k := (ps ! k)\<lparr>ptype := t\<rparr>])"
  by (cases "k < length ps")
     (auto simp: list_update_beyond list_all_length nth_list_update)

lemma assign_types_nonneg:
  "list_all (\<lambda>p. 0 \<le> ballsRemaining p) (players h) \<Longrightarrow>
     list_all (\<lambda>p. 0 \<le> ballsRemaining p) (players (assign_types h m t))"
  by (simp add: assign_types_def Let_def ptype_update_nonneg)

lemma chkPockets_ball_nonneg:
  assumes "list_all (\<lambda>p. 0 \<le> ballsRemaining p) (players g)"
  shows "list_all (\<lambda>p. 0 \<le> ballsRemaining p) (players (scan_game (chkPockets_ball i g c a)))"
  using assms
  by (auto simp: chkPockets_ball_eval Let_def assign_types_nonneg intro!: list_all_update)

lemma chkPockets_loop_nonneg:
  "list_all (\<lambda>p. 0 \<le> ballsRemaining p) (players g) \<Longrightarrow>
     list_all (\<lambda>p. 0 \<le> ballsRemaining p)
       (players (scan_game (chkPockets_loop is (Scanning g c a))))"
proof (induction "is" arbitrary: g c a)
  case Nil
  then show ?case by simp
next
  case (Cons i "is")
  note step = chkPockets_ball_nonneg[OF Cons.prems, of i c a]
  show ?case
  proof (cases "chkPockets_ball i g c a")
    case (Returned g1)
    with step show ?thesis by simp
  next
    case (Scanning g1 c1 a1)
    with step Cons.IH[of g1 c1 a1] show ?thesis by simp
  qed
qed

lemma chkPockets_nonneg:
  assumes "list_all (\<lambda>p. 0 \<le> ballsRemaining p) (players g)"
  shows "list_all (\<lambda>p. 0 \<le> ballsRemaining p) (players (chkPockets g))"
  using chkPockets_loop_nonneg[OF assms, of "[0..<MAX_BALLS]" False False]
  by (cases "chkPockets_loop [0..<MAX_BALLS] (Scanning g False False)")
     (simp_all add: chkPockets_def applyScratch_def Let_def)


text \<open>
  With \<open>firstShot\<close> cleared, a current player without a group still has none when the
  8-ball is tested.
\<close>

lemma chkPockets_unassigned_loses:
  assumes "eight_sinks g" "\<not> firstShot g" "nat (currentPlayer g) < length (players g)"
    "ptype (players g ! nat (currentPlayer g)) = PLAYER_NONE"
  shows "state (chkPockets g) = GAME_LOST"
proof -
  have m: "map ptype (players (chkPockets g)) = map ptype (players g)"
    using chkPockets_fixed(1)[OF assms(2)] .
  then have "length (players (chkPockets g)) = length (players g)"
    using length_map by metis
  with m assms(3) have "ptype (players (chkPockets g) ! nat (currentPlayer g)) =
      ptype (players g ! nat (currentPlayer g))"
    by (metis nth_map)
  with assms(4) chkPockets_eight(2)[OF assms(1)] have "\<not> group_cleared (chkPockets g)"
    by (simp add: group_cleared_def)
  with chkPockets_eight(1)[OF assms(1)] show ?thesis by simp
qed


section \<open>The claims on the pocket scan\<close>


lemma vec_eq_iff: "vec a b = vec c d \<longleftrightarrow> a = c \<and> b = d"
  by (simp add: vec_def)

lemma fixture_frames:
  "players (move_ball_to i p g) = players g" "currentPlayer (move_ball_to i p g) = currentPlayer g"
  "firstShot (move_ball_to i p g) = firstShot g" "state (move_ball_to i p g) = state g"
  "assignedTypes (move_ball_to i p g) = assignedTypes g"
  "length (balls (move_ball_to i p g)) = length (balls g)"
  by (simp_all add: move_ball_to_def)

text \<open>
  Claim C1. In a scan in which an 8-ball sinks, \<^verbatim>\<open>CheckPockets\<close> sets the state to Won when
  the current player has a group assigned and none of its balls remaining, and to Lost
  otherwise, in particular when the player has no group; it returns from inside the loop:
  no scratch is applied (\<open>currentPlayer\<close> is kept), no message is written, and with the
  rack's typing, where ball 8 is the only 8-ball, ball 8 is pocketed and no ball of a
  higher index is touched. \<^verbatim>\<open>CheckPockets\<close> never writes the players, so the test is on
  the players as they were at entry. \<^verbatim>\<open>chkPockets\<close> of \<^verbatim>\<open>previous.c\<close> may have written
  them earlier in the same scan, so its test is on the players of the game it returns,
  which are those at the moment of the return; entered with \<open>firstShot\<close> cleared, it
  assigns nothing, and a current player without a group loses there too.
\<close>

theorem eight_ball_decides_game:
  assumes "eight_sinks g"
  shows "state (CheckPockets g) = (if group_cleared g then GAME_WON else GAME_LOST) \<and>
    (ptype (players g ! nat (currentPlayer g)) = PLAYER_NONE \<longrightarrow>
       state (CheckPockets g) = GAME_LOST) \<and>
    players (CheckPockets g) = players g \<and>
    currentPlayer (CheckPockets g) = currentPlayer g \<and>
    statusMessage (CheckPockets g) = statusMessage g \<and>
    state (chkPockets g) = (if group_cleared (chkPockets g) then GAME_WON else GAME_LOST) \<and>
    currentPlayer (chkPockets g) = currentPlayer g \<and>
    statusMessage (chkPockets g) = statusMessage g \<and>
    (\<not> firstShot g \<and> nat (currentPlayer g) < length (players g) \<and>
     ptype (players g ! nat (currentPlayer g)) = PLAYER_NONE \<longrightarrow>
       state (chkPockets g) = GAME_LOST) \<and>
    (length (balls g) = MAX_BALLS \<and> rack_typed g \<longrightarrow>
       pocketed (balls (CheckPockets g) ! 8) \<and> pocketed (balls (chkPockets g) ! 8) \<and>
       (\<forall>j. 8 < j \<longrightarrow> balls (CheckPockets g) ! j = balls g ! j \<and>
                       balls (chkPockets g) ! j = balls g ! j))"
proof -
  have none: "ptype (players g ! nat (currentPlayer g)) = PLAYER_NONE \<Longrightarrow> \<not> group_cleared g"
    by (simp add: group_cleared_def)
  have stop: "length (balls g) = MAX_BALLS \<and> rack_typed g \<longrightarrow>
       pocketed (balls (CheckPockets g) ! 8) \<and> pocketed (balls (chkPockets g) ! 8) \<and>
       (\<forall>j. 8 < j \<longrightarrow> balls (CheckPockets g) ! j = balls g ! j \<and>
                       balls (chkPockets g) ! j = balls g ! j)"
  proof
    assume h: "length (balls g) = MAX_BALLS \<and> rack_typed g"
    then have s8: "sinks g 8" using assms rack_typed_eight_sinks by simp
    from h s8 CheckPockets_stops_at_eight[of g] chkPockets_stops_at_eight[of g]
    show "pocketed (balls (CheckPockets g) ! 8) \<and> pocketed (balls (chkPockets g) ! 8) \<and>
       (\<forall>j. 8 < j \<longrightarrow> balls (CheckPockets g) ! j = balls g ! j \<and>
                       balls (chkPockets g) ! j = balls g ! j)"
      by simp
  qed
  from CheckPockets_eight[OF assms] chkPockets_eight[OF assms] none stop
    chkPockets_unassigned_loses[OF assms]
  show ?thesis by simp
qed

lemma upt_16: "[0..<16] = [0,1,2,3,4,5,6,7,8,9,10,11,12,13,14,15]"
  by (simp add: upt_rec)

lemma eight_and_nine_facts:
  "eight_sinks eight_and_nine" "sinks eight_and_nine 9" "length (balls eight_and_nine) = MAX_BALLS"
  "rack_typed eight_and_nine" "\<not> firstShot eight_and_nine" "currentPlayer eight_and_nine = 0"
  "map ptype (players eight_and_nine) = [PLAYER_NONE, PLAYER_NONE]"
  "\<not> pocketed (balls eight_and_nine ! 9)"
  by (simp_all add: eight_sinks_def rack_typed_def MAX_BALLS_def upt_16 eight_and_nine_def
      fixture_eval InitGame_fields)

theorem eight_ball_decides_game_witness:
  "eight_sinks eight_and_nine \<and> length (balls eight_and_nine) = MAX_BALLS \<and>
   rack_typed eight_and_nine \<and> sinks eight_and_nine 9 \<and>
   \<not> firstShot eight_and_nine \<and>
   nat (currentPlayer eight_and_nine) < length (players eight_and_nine) \<and>
   ptype (players eight_and_nine ! nat (currentPlayer eight_and_nine)) = PLAYER_NONE \<and>
   state (CheckPockets eight_and_nine) = GAME_LOST \<and>
   state (chkPockets eight_and_nine) = GAME_LOST \<and>
   pocketed (balls (CheckPockets eight_and_nine) ! 8) \<and>
   pocketed (balls (chkPockets eight_and_nine) ! 8) \<and>
   \<not> pocketed (balls (CheckPockets eight_and_nine) ! 9) \<and>
   \<not> pocketed (balls (chkPockets eight_and_nine) ! 9)"
proof -
  note f = eight_and_nine_facts
  note t = eight_ball_decides_game[OF f(1)]
  have p: "players eight_and_nine ! 0 = \<lparr>ptype = PLAYER_NONE, ballsRemaining = 7, name = ''Player 1''\<rparr>"
    by (simp add: eight_and_nine_def fixture_frames in_play_def rack_start_def InitGame_fields)
  have "map ptype (players (chkPockets eight_and_nine)) = [PLAYER_NONE, PLAYER_NONE]"
    using chkPockets_fixed(1)[OF f(5)] f(7) by simp
  then have "ptype (players (chkPockets eight_and_nine) ! 0) = PLAYER_NONE"
    by (metis list.simps(9) nth_Cons_0 nth_map length_map length_Cons zero_less_Suc)
  then have nc: "\<not> group_cleared (chkPockets eight_and_nine)"
    using t f(6) by (simp add: group_cleared_def)
  have nu: "\<not> group_cleared eight_and_nine"
    using p f(6) by (simp add: group_cleared_def)
  have l: "length (players eight_and_nine) = 2"
    using f(7) length_map[of ptype "players eight_and_nine"] by simp
  from t f p nc nu l show ?thesis by simp
qed


text \<open>
  Claim C5, as amended. In a scan in which no 8-ball sinks, the state becomes Scratch and
  \<open>currentPlayer\<close> flips to the opponent exactly when the cue ball sinks in that scan;
  otherwise the scan leaves both as they were. In a scan in which an 8-ball sinks the
  function returns from the loop: the state is not Scratch and \<open>currentPlayer\<close> is kept,
  whether or not the cue ball sank. The cue ball is pocketed by the scan exactly when it
  was on the table within the capture radius of a pocket at entry. This holds of
  \<^verbatim>\<open>CheckPockets\<close> and of \<^verbatim>\<open>chkPockets\<close>. Nothing is said of the status message.
\<close>

theorem scratch_when_cue_sinks:
  "(\<not> eight_sinks g \<longrightarrow>
      state (CheckPockets g) = (if sinks g 0 then GAME_SCRATCH else state g) \<and>
      currentPlayer (CheckPockets g) = (if sinks g 0 then 1 - currentPlayer g else currentPlayer g) \<and>
      state (chkPockets g) = (if sinks g 0 then GAME_SCRATCH else state g) \<and>
      currentPlayer (chkPockets g) = (if sinks g 0 then 1 - currentPlayer g else currentPlayer g)) \<and>
   (eight_sinks g \<longrightarrow>
      state (CheckPockets g) \<noteq> GAME_SCRATCH \<and> currentPlayer (CheckPockets g) = currentPlayer g \<and>
      state (chkPockets g) \<noteq> GAME_SCRATCH \<and> currentPlayer (chkPockets g) = currentPlayer g) \<and>
   (0 < length (balls g) \<longrightarrow>
      pocketed (balls (CheckPockets g) ! 0) = (pocketed (balls g ! 0) \<or> sinks g 0) \<and>
      pocketed (balls (chkPockets g) ! 0) = (pocketed (balls g ! 0) \<or> sinks g 0))"
proof (intro conjI impI)
  assume n: "\<not> eight_sinks g"
  show "state (CheckPockets g) = (if sinks g 0 then GAME_SCRATCH else state g)"
    using CheckPockets_no_eight(1)[OF n] .
  show "currentPlayer (CheckPockets g) = (if sinks g 0 then 1 - currentPlayer g else currentPlayer g)"
    using CheckPockets_no_eight(3)[OF n] .
  show "state (chkPockets g) = (if sinks g 0 then GAME_SCRATCH else state g)"
    using chkPockets_no_eight(1)[OF n] .
  show "currentPlayer (chkPockets g) = (if sinks g 0 then 1 - currentPlayer g else currentPlayer g)"
    using chkPockets_no_eight(2)[OF n] .
next
  assume e: "eight_sinks g"
  show "state (CheckPockets g) \<noteq> GAME_SCRATCH"
    using CheckPockets_eight(1)[OF e] by simp
  show "currentPlayer (CheckPockets g) = currentPlayer g"
    using CheckPockets_eight(3)[OF e] .
  show "state (chkPockets g) \<noteq> GAME_SCRATCH"
    using chkPockets_eight(1)[OF e] by simp
  show "currentPlayer (chkPockets g) = currentPlayer g"
    using chkPockets_eight(2)[OF e] .
next
  assume l: "0 < length (balls g)"
  show "pocketed (balls (CheckPockets g) ! 0) = (pocketed (balls g ! 0) \<or> sinks g 0)"
    using CheckPockets_cue[OF l] .
  show "pocketed (balls (chkPockets g) ! 0) = (pocketed (balls g ! 0) \<or> sinks g 0)"
    using chkPockets_cue[OF l] .
qed

lemma cue_sunk_facts:
  "\<not> eight_sinks cue_sunk" "sinks cue_sunk 0" "any_sinks cue_sunk" "0 < length (balls cue_sunk)"
  "currentPlayer cue_sunk = 0" "state cue_sunk = GAME_PLAYING"
  "players cue_sunk = [\<lparr>ptype = PLAYER_NONE, ballsRemaining = 7, name = ''Player 1''\<rparr>,
                       \<lparr>ptype = PLAYER_NONE, ballsRemaining = 7, name = ''Player 2''\<rparr>]"
  "\<not> pocketed (balls cue_sunk ! 0)"
  by (simp_all add: eight_sinks_def any_sinks_def MAX_BALLS_def upt_16 cue_sunk_def
      fixture_eval InitGame_fields)

lemma cue_and_eight_facts:
  "eight_sinks cue_and_eight" "sinks cue_and_eight 0" "0 < length (balls cue_and_eight)"
  "currentPlayer cue_and_eight = 0" "state cue_and_eight = GAME_PLAYING"
  "\<not> pocketed (balls cue_and_eight ! 0)" "\<not> group_cleared cue_and_eight"
  by (simp_all add: eight_sinks_def any_sinks_def MAX_BALLS_def upt_16 cue_and_eight_def
      fixture_eval InitGame_fields group_cleared_def)

theorem scratch_when_cue_sinks_witness:
  "\<not> eight_sinks cue_sunk \<and> sinks cue_sunk 0 \<and> 0 < length (balls cue_sunk) \<and>
   state cue_sunk = GAME_PLAYING \<and> currentPlayer cue_sunk = 0 \<and>
   state (CheckPockets cue_sunk) = GAME_SCRATCH \<and> currentPlayer (CheckPockets cue_sunk) = 1 \<and>
   state (chkPockets cue_sunk) = GAME_SCRATCH \<and> currentPlayer (chkPockets cue_sunk) = 1 \<and>
   pocketed (balls (CheckPockets cue_sunk) ! 0) \<and> pocketed (balls (chkPockets cue_sunk) ! 0) \<and>
   eight_sinks cue_and_eight \<and>
   state (CheckPockets cue_and_eight) \<noteq> GAME_SCRATCH \<and>
   state (chkPockets cue_and_eight) \<noteq> GAME_SCRATCH \<and>
   currentPlayer (CheckPockets cue_and_eight) = currentPlayer cue_and_eight"
  using scratch_when_cue_sinks[of cue_sunk] scratch_when_cue_sinks[of cue_and_eight]
    cue_sunk_facts cue_and_eight_facts
  by simp

text \<open>
  Claim C5 as stated fails: with the cue ball on one pocket and the 8-ball on another,
  the scan pockets the cue ball, yet the state becomes Lost, not Scratch, the turn does
  not pass and no message is written.
\<close>

theorem scratch_skipped_when_eight_sinks:
  "\<not> pocketed (balls cue_and_eight ! 0) \<and>
   pocketed (balls (CheckPockets cue_and_eight) ! 0) \<and>
   state cue_and_eight = GAME_PLAYING \<and>
   state (CheckPockets cue_and_eight) = GAME_LOST \<and>
   currentPlayer (CheckPockets cue_and_eight) = currentPlayer cue_and_eight \<and>
   statusMessage (CheckPockets cue_and_eight) = statusMessage cue_and_eight"
  using CheckPockets_eight[OF cue_and_eight_facts(1)] CheckPockets_cue[OF cue_and_eight_facts(3)]
    cue_and_eight_facts
  by simp

text \<open>
  Claim C9. A call of \<^verbatim>\<open>chkPockets\<close> entered with \<open>firstShot\<close> false changes neither
  player's \<open>type\<close> nor the flag \<open>assignedType\<close>. And \<^verbatim>\<open>handleInput\<close> clears \<open>firstShot\<close>
  when a shot is released: outside scratch placement and a reset, whenever it changes the
  cue ball's velocity, \<open>firstShot\<close> is false afterwards.
\<close>

theorem chkPockets_assigns_only_on_firstShot:
  "(\<not> firstShot g \<longrightarrow>
      map ptype (players (chkPockets g)) = map ptype (players g) \<and>
      assignedTypes (chkPockets g) = assignedTypes g) \<and>
   (\<not> keyR inp \<and> state h \<noteq> GAME_SCRATCH \<and>
    velocity (balls (handleInput inp h) ! 0) \<noteq> velocity (balls h ! 0) \<longrightarrow>
      \<not> firstShot (handleInput inp h))"
  using chkPockets_fixed[of g] handleInput_shot_clears_firstShot[of inp h]
  by blast

lemma solid_sunk_facts:
  "\<not> eight_sinks solid_sunk" "\<not> sinks solid_sunk 0" "sinks solid_sunk 1" "any_sinks solid_sunk"
  "\<not> firstShot solid_sunk" "\<not> assignedTypes solid_sunk" "currentPlayer solid_sunk = 0"
  "btype (balls solid_sunk ! 1) = BALL_SOLID"
  "map ptype (players solid_sunk) = [PLAYER_NONE, PLAYER_NONE]"
  "map ballsRemaining (players solid_sunk) = [7, 7]"
  by (simp_all add: eight_sinks_def any_sinks_def MAX_BALLS_def upt_16 solid_sunk_def
      fixture_eval InitGame_fields)

lemma aimed_shot:
  "\<not> keyR (release_at (vec 100 200))" "state aimed \<noteq> GAME_SCRATCH" "firstShot aimed"
  "velocity (balls aimed ! 0) = vec 0 0"
  "velocity (balls (handleInput (release_at (vec 100 200)) aimed) ! 0) = vec (- 11) 0"
  "state (handleInput (release_at (vec 100 200)) aimed) = GAME_PLAYING"
  by (simp_all add: handleInput_def handleInput_shoot_def release_at_def aimed_def rack_start_def
      initGame_def InitGame_fields rack_balls Let_def MAX_POWER_PIXELS_def MAX_SHOT_SPEED_def)

theorem chkPockets_assigns_only_on_firstShot_witness:
  "\<not> firstShot solid_sunk \<and> sinks solid_sunk 1 \<and> btype (balls solid_sunk ! 1) = BALL_SOLID \<and>
   map ptype (players (chkPockets solid_sunk)) = [PLAYER_NONE, PLAYER_NONE] \<and>
   \<not> assignedTypes (chkPockets solid_sunk) \<and>
   \<not> keyR (release_at (vec 100 200)) \<and> state aimed \<noteq> GAME_SCRATCH \<and> firstShot aimed \<and>
   velocity (balls (handleInput (release_at (vec 100 200)) aimed) ! 0) \<noteq> velocity (balls aimed ! 0) \<and>
   \<not> firstShot (handleInput (release_at (vec 100 200)) aimed)"
proof -
  have v: "velocity (balls (handleInput (release_at (vec 100 200)) aimed) ! 0) \<noteq> velocity (balls aimed ! 0)"
    by (simp add: aimed_shot vec_eq_iff)
  from chkPockets_assigns_only_on_firstShot[of solid_sunk "release_at (vec 100 200)" aimed]
    solid_sunk_facts aimed_shot(1,2,3) v
  show ?thesis by simp
qed


lemmas scan_eval = CheckPockets_def chkPockets_def MAX_BALLS_def upt_16 CheckPockets_ball_eval
  chkPockets_ball_eval fixture_eval InitGame_fields group_cleared_def assign_types_def
  playerIdxForType_def ApplyScratch_def applyScratch_def Let_def

text \<open>
  Claim C6 fails on the code. Player 1 (index 0) has the turn and sinks the cue ball, no
  8-ball sinks. \<^verbatim>\<open>ApplyScratch\<close> runs before the message is written, so the message
  names the player at the flipped index: Player 2, who did not have the turn. It also
  replaces the scratch message \<^verbatim>\<open>ApplyScratch\<close> had just set. Both files do the same.
\<close>

theorem scratch_message_names_opponent:
  "currentPlayer cue_sunk = 0 \<and> map name (players cue_sunk) = [''Player 1'', ''Player 2''] \<and>
   sinks cue_sunk 0 \<and> \<not> eight_sinks cue_sunk \<and>
   currentPlayer (CheckPockets cue_sunk) = 1 \<and>
   statusMessage (CheckPockets cue_sunk) = ''Player 2 pocketed a ball!'' \<and>
   statusMessage (chkPockets cue_sunk) = ''Player 2 pocketed a ball!''"
  using CheckPockets_no_eight(3,4)[OF cue_sunk_facts(1)] chkPockets_no_eight(3)[OF cue_sunk_facts(1)]
    cue_sunk_facts
  by simp

text \<open>
  Claim C2 fails on the code. In play after the break, the first object ball to sink is
  solid ball 1. \<^verbatim>\<open>CheckPockets\<close> of \<^verbatim>\<open>updated.c\<close> pockets it and assigns nothing: it has
  no assignment at all. \<^verbatim>\<open>chkPockets\<close> of \<^verbatim>\<open>previous.c\<close> assigns nothing either, because
  \<open>firstShot\<close> was cleared when the break shot was released.
\<close>

theorem first_solid_assigns_no_group:
  "sinks solid_sunk 1 \<and> btype (balls solid_sunk ! 1) = BALL_SOLID \<and>
   map ptype (players solid_sunk) = [PLAYER_NONE, PLAYER_NONE] \<and>
   pocketed (balls (CheckPockets solid_sunk) ! 1) \<and>
   map ptype (players (CheckPockets solid_sunk)) = [PLAYER_NONE, PLAYER_NONE] \<and>
   \<not> assignedTypes (CheckPockets solid_sunk) \<and>
   pocketed (balls (chkPockets solid_sunk) ! 1) \<and>
   map ptype (players (chkPockets solid_sunk)) = [PLAYER_NONE, PLAYER_NONE] \<and>
   \<not> assignedTypes (chkPockets solid_sunk)"
  by (simp add: scan_eval solid_sunk_def)

text \<open>
  While \<open>firstShot\<close> still holds, \<^verbatim>\<open>chkPockets\<close> assigns on the 8-ball too: its test is
  "solid or not", so the 8-ball counts as a stripe.
\<close>

lemma chkPockets_assigns_on_eight:
  "firstShot eight_on_break \<and> btype (balls eight_on_break ! 8) = BALL_EIGHT \<and>
   map ptype (players eight_on_break) = [PLAYER_NONE, PLAYER_NONE] \<and>
   map ptype (players (chkPockets eight_on_break)) = [PLAYER_STRIPES, PLAYER_SOLIDS] \<and>
   assignedTypes (chkPockets eight_on_break) \<and>
   state (chkPockets eight_on_break) = GAME_LOST"
  by (simp add: scan_eval eight_on_break_def)



section \<open>Frames and the players of \<^verbatim>\<open>updated.c\<close>\<close>


text \<open>Frames: the physics passes write the balls only.\<close>

lemma fold_balls_only:
  assumes "\<And>i g. step i g = g\<lparr>balls := balls (step i g)\<rparr>"
  shows "fold step xs g = g\<lparr>balls := balls (fold step xs g)\<rparr>"
proof (induction xs arbitrary: g)
  case Nil
  then show ?case by simp
next
  case (Cons x xs)
  have "fold step (x # xs) g = fold step xs (step x g)" by simp
  also have "\<dots> = (step x g)\<lparr>balls := balls (fold step xs (step x g))\<rparr>"
    using Cons.IH[of "step x g"] .
  also have "\<dots> = g\<lparr>balls := balls (fold step xs (step x g))\<rparr>"
    by (subst assms[of x g]) simp
  finally show ?case by simp
qed

lemma UpdatePhysics_motion_frame:
  "UpdatePhysics_motion g = g\<lparr>balls := balls (UpdatePhysics_motion g)\<rparr>"
  unfolding UpdatePhysics_motion_def
  by (rule fold_balls_only) simp

lemma CheckCollisions_pair_frame:
  "CheckCollisions_pair i j g = g\<lparr>balls := balls (CheckCollisions_pair i j g)\<rparr>"
  by (simp add: CheckCollisions_pair_def Let_def)

lemma CheckCollisions_frame:
  "CheckCollisions g = g\<lparr>balls := balls (CheckCollisions g)\<rparr>"
  unfolding CheckCollisions_def
proof (rule fold_balls_only)
  fix i g
  show "(if pocketed (balls g ! i) then g else fold (CheckCollisions_pair i) [i + 1..<MAX_BALLS] g) =
        g\<lparr>balls := balls (if pocketed (balls g ! i) then g
                             else fold (CheckCollisions_pair i) [i + 1..<MAX_BALLS] g)\<rparr>"
    using fold_balls_only[of "CheckCollisions_pair i" "[i + 1..<MAX_BALLS]" g, OF CheckCollisions_pair_frame]
    by simp
qed

lemma physics_frames:
  "players (UpdatePhysics_motion g) = players g" "currentPlayer (UpdatePhysics_motion g) = currentPlayer g"
  "state (UpdatePhysics_motion g) = state g" "stickPullPixels (UpdatePhysics_motion g) = stickPullPixels g"
  "ballsMoving (UpdatePhysics_motion g) = ballsMoving g"
  "players (CheckCollisions g) = players g" "currentPlayer (CheckCollisions g) = currentPlayer g"
  "state (CheckCollisions g) = state g" "stickPullPixels (CheckCollisions g) = stickPullPixels g"
  "ballsMoving (CheckCollisions g) = ballsMoving g"
  by (subst UpdatePhysics_motion_frame CheckCollisions_frame, simp)+

lemma recoil_frames:
  "players (UpdateGame_recoil g) = players g" "currentPlayer (UpdateGame_recoil g) = currentPlayer g"
  "state (UpdateGame_recoil g) = state g" "balls (UpdateGame_recoil g) = balls g"
  by (simp_all add: UpdateGame_recoil_def Let_def)

lemma settle_frames:
  "players (UpdateGame_settle g) = players g" "state (UpdateGame_settle g) = state g"
  "balls (UpdateGame_settle g) = balls g"
  "stickPullPixels (UpdateGame_settle g) = stickPullPixels g"
  "currentPlayer (UpdateGame_settle g) = currentPlayer g \<or>
   currentPlayer (UpdateGame_settle g) = 1 - currentPlayer g"
  by (simp_all add: UpdateGame_settle_def CheckWinCondition_def NextTurn_def Let_def)

lemma fresh_not_cleared: "fresh_players g \<Longrightarrow> \<not> group_cleared g"
  by (auto simp: fresh_players_def group_cleared_def)

lemma InitGame_fresh: "fresh_players (InitGame g)"
  by (simp add: fresh_players_def InitGame_fields)

lemma HandleInput_shoot_frames:
  "players (HandleInput_shoot m c g) = players g"
  "currentPlayer (HandleInput_shoot m c g) = currentPlayer g"
  "state (HandleInput_shoot m c g) = state g \<or> state (HandleInput_shoot m c g) = GAME_PLAYING"
  by (simp_all add: HandleInput_shoot_def Let_def)

lemma HandleInput_fresh:
  assumes "fresh_players g"
  shows "fresh_players (HandleInput inp g)"
proof (cases "keyR inp")
  case True
  then show ?thesis by (simp add: HandleInput_def InitGame_fresh)
next
  case False
  show ?thesis
  proof (cases "state g = GAME_SCRATCH \<or> ballsMoving g")
    case True
    with False assms show ?thesis
      by (auto simp: HandleInput_def fresh_players_def)
  next
    case False
    define cuePos where "cuePos = (if pocketed (balls g ! 0) then cueBallPos g else position (balls g ! 0))"
    define g1 where "g1 = (if mousePressed inp \<and> Distance (mousePos inp) cuePos \<le> BALL_RADIUS * 1.6
                  then g\<lparr>aiming := True, dragStart := mousePos inp,
                          stickPullPixels := 0, shotPower := 0\<rparr>
                  else g)"
    define g2 where "g2 = (if mouseDown inp \<and> aiming g1 then
                    let d0 = Distance (mousePos inp) cuePos;
                        d = (if d0 > MAX_POWER_PIXELS then MAX_POWER_PIXELS else d0)
                    in g1\<lparr>stickPullPixels := d, shotPower := d / MAX_POWER_PIXELS\<rparr>
                  else g1)"
    have f2: "fresh_players g2"
      using assms by (simp add: g2_def g1_def Let_def fresh_players_def)
    have hi: "HandleInput inp g =
      (if aiming g2 \<and> mouseReleased inp then HandleInput_shoot (mousePos inp) cuePos g2 else g2)"
      using False \<open>\<not> keyR inp\<close> by (simp add: HandleInput_def Let_def g2_def g1_def cuePos_def)
    show ?thesis
      using f2 HandleInput_shoot_frames[of "mousePos inp" cuePos g2]
      by (auto simp: hi fresh_players_def)
  qed
qed

lemma CheckPockets_fresh:
  assumes "fresh_players g"
  shows "fresh_players (CheckPockets g)"
proof (cases "eight_sinks g")
  case True
  from CheckPockets_eight[OF True] fresh_not_cleared[OF assms] assms
  show ?thesis by (simp add: fresh_players_def)
next
  case False
  from CheckPockets_no_eight[OF False] assms
  show ?thesis by (auto simp: fresh_players_def)
qed

lemma UpdateGame_fresh:
  assumes "fresh_players g"
  shows "fresh_players (UpdateGame inp g)"
proof -
  have f1: "fresh_players (UpdateGame_input inp g)"
    using HandleInput_fresh[OF assms, of inp]
    by (simp add: UpdateGame_input_def fresh_players_def recoil_frames)
  have f2: "fresh_players (CheckCollisions (UpdatePhysics_motion (UpdateGame_input inp g)))"
    using f1 by (simp add: fresh_players_def physics_frames)
  have f3: "fresh_players (UpdatePhysics (UpdateGame_input inp g))"
    using CheckPockets_fresh[OF f2] by (simp add: UpdatePhysics_def)
  have f4: "fresh_players (UpdateGame_settle (UpdatePhysics (UpdateGame_input inp g)))"
    using f3 settle_frames[of "UpdatePhysics (UpdateGame_input inp g)"]
    by (auto simp: fresh_players_def)
  show ?thesis
    using f1 f4 by (simp add: UpdateGame_def Let_def)
qed

lemma reachable_fresh: "reachable g \<Longrightarrow> fresh_players g"
  by (induction rule: reachable.induct) (simp_all add: InitGame_fresh UpdateGame_fresh)


lemma HandleInput_players:
  assumes "\<not> keyR inp"
  shows "players (HandleInput inp g) = players g"
proof (cases "state g = GAME_SCRATCH \<or> ballsMoving g")
  case True
  with assms show ?thesis by (auto simp: HandleInput_def)
next
  case False
  define cuePos where "cuePos = (if pocketed (balls g ! 0) then cueBallPos g else position (balls g ! 0))"
  define g1 where "g1 = (if mousePressed inp \<and> Distance (mousePos inp) cuePos \<le> BALL_RADIUS * 1.6
                then g\<lparr>aiming := True, dragStart := mousePos inp,
                        stickPullPixels := 0, shotPower := 0\<rparr>
                else g)"
  define g2 where "g2 = (if mouseDown inp \<and> aiming g1 then
                  let d0 = Distance (mousePos inp) cuePos;
                      d = (if d0 > MAX_POWER_PIXELS then MAX_POWER_PIXELS else d0)
                  in g1\<lparr>stickPullPixels := d, shotPower := d / MAX_POWER_PIXELS\<rparr>
                else g1)"
  have p2: "players g2 = players g"
    by (simp add: g2_def g1_def Let_def)
  have hi: "HandleInput inp g =
    (if aiming g2 \<and> mouseReleased inp then HandleInput_shoot (mousePos inp) cuePos g2 else g2)"
    using False assms by (simp add: HandleInput_def Let_def g2_def g1_def cuePos_def)
  show ?thesis
    using p2 by (simp add: hi HandleInput_shoot_frames)
qed

lemma CheckPockets_players: "players (CheckPockets g) = players g"
  using CheckPockets_eight(2)[of g] CheckPockets_no_eight(2)[of g] by blast

lemma UpdateGame_players:
  assumes "\<not> keyR inp"
  shows "players (UpdateGame inp g) = players g"
  using HandleInput_players[OF assms, of g]
  by (simp add: UpdateGame_def UpdateGame_input_def UpdatePhysics_def Let_def recoil_frames
      settle_frames CheckPockets_players physics_frames)

lemma pre_scan_fresh:
  assumes "reachable g"
  shows "fresh_players (CheckCollisions (UpdatePhysics_motion (UpdateGame_input inp g)))"
proof -
  have "fresh_players (UpdateGame_input inp g)"
    using HandleInput_fresh[OF reachable_fresh[OF assms], of inp]
    by (simp add: UpdateGame_input_def fresh_players_def recoil_frames)
  then show ?thesis by (simp add: fresh_players_def physics_frames)
qed

text \<open>
  Claim C4. In \<^verbatim>\<open>updated.c\<close> nothing but \<^verbatim>\<open>InitGame\<close> writes a player: \<^verbatim>\<open>CheckPockets\<close>
  keeps the players, and so does a whole frame unless the reset key calls \<^verbatim>\<open>InitGame\<close>.
  So in every game reachable from \<^verbatim>\<open>InitGame\<close>, and in the game the pocket scan of the
  next frame receives, both players have the type \<open>PLAYER_NONE\<close> and 7 balls remaining
  and the state is not Won; and on such a game a scan in which the 8-ball sinks ends in
  the state Lost.
\<close>

theorem players_never_written:
  "players (CheckPockets g) = players g \<and>
   (\<not> keyR inp \<longrightarrow> players (UpdateGame inp g) = players g) \<and>
   (reachable g \<longrightarrow>
      fresh_players g \<and> state g \<noteq> GAME_WON \<and>
      map ptype (players g) = [PLAYER_NONE, PLAYER_NONE] \<and>
      map ballsRemaining (players g) = [7, 7] \<and>
      fresh_players (CheckCollisions (UpdatePhysics_motion (UpdateGame_input inp g)))) \<and>
   (fresh_players m \<and> eight_sinks m \<longrightarrow> state (CheckPockets m) = GAME_LOST)"
proof (intro conjI impI)
  show "players (CheckPockets g) = players g" by (rule CheckPockets_players)
next
  assume "\<not> keyR inp"
  then show "players (UpdateGame inp g) = players g" by (rule UpdateGame_players)
next
  assume r: "reachable g"
  show "fresh_players g" using reachable_fresh[OF r] .
  then show "state g \<noteq> GAME_WON" "map ptype (players g) = [PLAYER_NONE, PLAYER_NONE]"
    "map ballsRemaining (players g) = [7, 7]"
    by (simp_all add: fresh_players_def)
  show "fresh_players (CheckCollisions (UpdatePhysics_motion (UpdateGame_input inp g)))"
    using pre_scan_fresh[OF r] .
next
  assume "fresh_players m \<and> eight_sinks m"
  then show "state (CheckPockets m) = GAME_LOST"
    using CheckPockets_eight(1)[of m] fresh_not_cleared[of m] by simp
qed

lemma rack_start_reachable: "reachable rack_start"
  unfolding rack_start_def by (rule reachable_init)

theorem players_never_written_witness:
  "\<not> keyR (click_at (vec 300 200)) \<and> reachable rack_start \<and>
   fresh_players eight_and_nine \<and> eight_sinks eight_and_nine \<and>
   players (CheckPockets eight_and_nine) = players eight_and_nine \<and>
   players (UpdateGame (click_at (vec 300 200)) rack_start) = players rack_start \<and>
   map ptype (players rack_start) = [PLAYER_NONE, PLAYER_NONE] \<and>
   map ballsRemaining (players rack_start) = [7, 7] \<and>
   state rack_start \<noteq> GAME_WON \<and>
   state (CheckPockets eight_and_nine) = GAME_LOST"
proof -
  have k: "\<not> keyR (click_at (vec 300 200))" by (simp add: click_at_def)
  have f: "fresh_players eight_and_nine"
    by (simp add: fresh_players_def eight_and_nine_def fixture_frames in_play_def rack_start_def
        InitGame_fields)
  from players_never_written[of eight_and_nine "click_at (vec 300 200)" eight_and_nine]
    k f rack_start_reachable eight_and_nine_facts(1)
    players_never_written[of rack_start "click_at (vec 300 200)" eight_and_nine]
  show ?thesis by simp
qed

section \<open>The speed bound\<close>


lemma speed_zero [simp]: "speed (vec 0 0) = 0"
  by (simp add: speed_def)






















section \<open>Placing the cue ball after a scratch\<close>


lemmas table_consts =
  TABLE_WIDTH_def TABLE_HEIGHT_def BALL_RADIUS_def POCKET_RADIUS_def RAIL_WIDTH_def

lemma placement_accepted:
  assumes "state g = GAME_SCRATCH"
  shows "HandleInput (click_at (vec 56 56)) g =
     g\<lparr>cueBallPos := vec 56 56,
       balls := (balls g)[0 := (balls g ! 0)
                  \<lparr>position := vec 56 56, pocketed := False, velocity := vec 0 0\<rparr>],
       state := GAME_PLAYING,
       statusMessage := ''Cue placed. '' @
         name (players g ! nat (currentPlayer g)) @ CHR 0x27 # ''s turn''\<rparr>"
  using assms by (simp add: HandleInput_def click_at_def table_consts)

lemma placed_sinks:
  assumes "state g = GAME_SCRATCH" "0 < length (balls g)"
  shows "sinks (HandleInput (click_at (vec 56 56)) g) 0"
  using assms(2)
  by (simp add: placement_accepted[OF assms(1)] sinks_def pocket_hit_eval near_pocket_def)

text \<open>
  Claim C10. The pointer position \<open>(56, 56)\<close> is strictly inside the area the scratch
  placement of \<^verbatim>\<open>HandleInput\<close> accepts, and nearer than \<open>POCKET_RADIUS\<close> to the centre
  \<open>(40, 40)\<close> of the first pocket. A click there in the state Scratch puts the cue ball at
  that point, at rest and on the table, and sets the state to Playing; the pocket scan of
  the game so placed pockets the cue ball again, and unless an 8-ball sinks in that same
  scan the state is Scratch again and the turn has passed once more. No shot is taken:
  the cue ball's velocity is zero.
\<close>

theorem cue_placed_in_pocket_scratches_again:
  assumes "state g = GAME_SCRATCH" "0 < length (balls g)"
  shows "(let p = vec 56 56; g' = HandleInput (click_at p) g
          in vec_x p > RAIL_WIDTH + BALL_RADIUS \<and>
             vec_x p < TABLE_WIDTH - RAIL_WIDTH - BALL_RADIUS \<and>
             vec_y p > RAIL_WIDTH + BALL_RADIUS \<and>
             vec_y p < TABLE_HEIGHT - RAIL_WIDTH - BALL_RADIUS \<and>
             Distance p (pockets ! 0) < POCKET_RADIUS \<and>
             state g' = GAME_PLAYING \<and>
             position (balls g' ! 0) = p \<and> \<not> pocketed (balls g' ! 0) \<and>
             velocity (balls g' ! 0) = vec 0 0 \<and>
             pocketed (balls (CheckPockets g') ! 0) \<and>
             (\<not> eight_sinks g' \<longrightarrow>
                state (CheckPockets g') = GAME_SCRATCH \<and>
                currentPlayer (CheckPockets g') = 1 - currentPlayer g))"
proof -
  define g' where "g' = HandleInput (click_at (vec 56 56)) g"
  note pl = placement_accepted[OF assms(1)]
  have s0: "sinks g' 0" unfolding g'_def by (rule placed_sinks[OF assms])
  have len: "0 < length (balls g')" using assms(2) by (simp add: g'_def pl)
  have cur: "currentPlayer g' = currentPlayer g" by (simp add: g'_def pl)
  have near: "Distance (vec 56 56) (pockets ! 0) < POCKET_RADIUS"
    by (simp add: pockets_def Distance_less_iff table_consts)
  have placed: "state g' = GAME_PLAYING" "position (balls g' ! 0) = vec 56 56"
    "\<not> pocketed (balls g' ! 0)" "velocity (balls g' ! 0) = vec 0 0"
    using assms(2) by (simp_all add: g'_def pl)
  have again: "pocketed (balls (CheckPockets g') ! 0)"
    using CheckPockets_cue[OF len] s0 by simp
  have scr: "\<not> eight_sinks g' \<longrightarrow>
                state (CheckPockets g') = GAME_SCRATCH \<and>
                currentPlayer (CheckPockets g') = 1 - currentPlayer g"
    using CheckPockets_no_eight(1,3)[of g'] s0 cur by simp
  from near placed again scr show ?thesis
    unfolding Let_def g'_def[symmetric] by (simp add: table_consts)
qed


lemma scratch_pending_fields:
  "state scratch_pending = GAME_SCRATCH" "currentPlayer scratch_pending = 1"
  "stickRecoil scratch_pending = False" "ballsMoving scratch_pending = False"
  "balls scratch_pending =
     (balls (InitGame uninit_game))[0 := \<lparr>position = vec 40 40, velocity = vec 0 0, btype = BALL_CUE,
        number = 0, pocketed = True, isStriped = False\<rparr>]"
  by (simp_all add: scratch_pending_def scan_eval cue_sunk_def)

lemma placed_fields:
  "state placed = GAME_PLAYING" "currentPlayer placed = 1"
  "stickRecoil placed = False" "ballsMoving placed = False"
  "balls placed =
     (balls (InitGame uninit_game))[0 := \<lparr>position = vec 56 56, velocity = vec 0 0, btype = BALL_CUE,
        number = 0, pocketed = False, isStriped = False\<rparr>]"
  by (simp_all add: placed_def placement_accepted scratch_pending_fields rack_balls)


lemma fold_fixed:
  "(\<And>i. i \<in> set xs \<Longrightarrow> step i g = g) \<Longrightarrow> fold step xs g = g"
  by (induction xs) simp_all

lemma Vector2_eta: "vec (vec_x v) (vec_y v) = (v::Vector2)"
  by (simp add: vec_def)

lemma resting_ball: "resting b \<Longrightarrow> UpdatePhysics_ball b = b"
  by (simp add: resting_def UpdatePhysics_ball_def ClampBallSpeed_def Let_def Vector2_eta
      MIN_VELOCITY_def MAX_BALL_SPEED_def)

lemma motion_at_rest: "all_resting g \<Longrightarrow> UpdatePhysics_motion g = g"
  unfolding UpdatePhysics_motion_def
  by (rule fold_fixed) (auto simp: all_resting_def list_all_iff resting_ball)

lemma collisions_apart: "all_apart g \<Longrightarrow> CheckCollisions g = g"
  unfolding CheckCollisions_def
proof (rule fold_fixed)
  fix i
  assume a: "all_apart g" and i: "i \<in> set [0..<MAX_BALLS]"
  show "(if pocketed (balls g ! i) then g
         else fold (CheckCollisions_pair i) [i + 1..<MAX_BALLS] g) = g"
  proof (cases "pocketed (balls g ! i)")
    case True
    then show ?thesis by simp
  next
    case False
    have "fold (CheckCollisions_pair i) [i + 1..<MAX_BALLS] g = g"
    proof (rule fold_fixed)
      fix j
      assume "j \<in> set [i + 1..<MAX_BALLS]"
      with a i have "apart g i j" by (auto simp: all_apart_def list_all_iff)
      with False show "CheckCollisions_pair i j g = g"
        by (auto simp: CheckCollisions_pair_def apart_def Let_def)
    qed
    with False show ?thesis by simp
  qed
qed

lemma placed_resting: "all_resting placed"
  by (simp add: all_resting_def MAX_BALLS_def upt_16 placed_fields rack_balls resting_def
      table_consts)


lemma apart_far:
  assumes "900 \<le> (vec_x (position (balls g ! i)) - vec_x (position (balls g ! j))) *
                  (vec_x (position (balls g ! i)) - vec_x (position (balls g ! j))) +
                  (vec_y (position (balls g ! i)) - vec_y (position (balls g ! j))) *
                  (vec_y (position (balls g ! i)) - vec_y (position (balls g ! j)))"
  shows "apart g i j"
  using assms by (simp add: apart_def Distance_less_iff BALL_RADIUS_def)

lemma all_apart_far:
  "list_all (\<lambda>i. list_all (far_apart (balls g) i) [i + 1..<MAX_BALLS]) [0..<MAX_BALLS]
     \<Longrightarrow> all_apart g"
  by (auto simp: all_apart_def list_all_iff far_apart_def intro!: apart_far)

lemma placed_apart: "all_apart placed"
  by (rule all_apart_far)
     (simp add: MAX_BALLS_def upt_16 upt_rec far_apart_def placed_fields rack_balls)


lemma settle_keeps_turn:
  "state g \<noteq> GAME_PLAYING \<Longrightarrow> currentPlayer (UpdateGame_settle g) = currentPlayer g"
  by (simp add: UpdateGame_settle_def Let_def)

lemma placed_scan:
  "sinks placed 0" "\<not> eight_sinks placed" "0 < length (balls placed)"
  by (simp_all add: eight_sinks_def sinks_def MAX_BALLS_def upt_16 placed_fields rack_balls
      pocket_hit_eval near_pocket_def)

text \<open>
  The whole frame on an example: in \<open>scratch_pending\<close> Player 2 is to place the cue ball.
  The click at \<open>(56, 56)\<close> places it; in the same \<^verbatim>\<open>UpdateGame\<close> the motion pass and the
  collision pass leave every ball where it is, and the pocket scan pockets the cue ball:
  the frame ends in the state Scratch with the turn back at Player 1.
\<close>

lemma placed_frame:
  "UpdateGame (click_at (vec 56 56)) scratch_pending = UpdateGame_settle (CheckPockets placed)"
proof -
  have inp: "UpdateGame_input (click_at (vec 56 56)) scratch_pending = placed"
    by (simp add: UpdateGame_input_def UpdateGame_recoil_def placed_def[symmetric] placed_fields)
  show ?thesis
    by (simp add: UpdateGame_def inp placed_fields UpdatePhysics_def
        motion_at_rest[OF placed_resting] collisions_apart[OF placed_apart])
qed

theorem cue_placed_in_pocket_scratches_again_witness:
  "state scratch_pending = GAME_SCRATCH \<and> 0 < length (balls scratch_pending) \<and>
   currentPlayer scratch_pending = 1 \<and> pocketed (balls scratch_pending ! 0) \<and>
   state placed = GAME_PLAYING \<and> position (balls placed ! 0) = vec 56 56 \<and>
   \<not> pocketed (balls placed ! 0) \<and> velocity (balls placed ! 0) = vec 0 0 \<and>
   \<not> eight_sinks placed \<and>
   pocketed (balls (CheckPockets placed) ! 0) \<and>
   state (CheckPockets placed) = GAME_SCRATCH \<and> currentPlayer (CheckPockets placed) = 0 \<and>
   state (UpdateGame (click_at (vec 56 56)) scratch_pending) = GAME_SCRATCH \<and>
   pocketed (balls (UpdateGame (click_at (vec 56 56)) scratch_pending) ! 0) \<and>
   currentPlayer (UpdateGame (click_at (vec 56 56)) scratch_pending) = 0"
proof -
  have h: "state scratch_pending = GAME_SCRATCH" "0 < length (balls scratch_pending)"
    "currentPlayer scratch_pending = 1" "pocketed (balls scratch_pending ! 0)"
    by (simp_all add: scratch_pending_fields rack_balls)
  note t = cue_placed_in_pocket_scratches_again[OF h(1,2), unfolded Let_def placed_def[symmetric]]
  have s: "state (CheckPockets placed) = GAME_SCRATCH" "currentPlayer (CheckPockets placed) = 0"
    using t placed_scan(2) h(3) by simp_all
  have f: "state (UpdateGame (click_at (vec 56 56)) scratch_pending) = GAME_SCRATCH"
    "pocketed (balls (UpdateGame (click_at (vec 56 56)) scratch_pending) ! 0)"
    "currentPlayer (UpdateGame (click_at (vec 56 56)) scratch_pending) = 0"
    using s t by (simp_all add: placed_frame settle_frames settle_keeps_turn)
  from h t s f placed_scan(2) show ?thesis by simp
qed


end
